theory Spec2Isabelle
  imports Complex_Main "HOL-Library.Log_Nat"
begin

section \<open>JavaScript strings\<close>

text \<open>
  A JavaScript string is a sequence of UTF-16 code units; a code unit is modelled as a
  natural number. \<open>js\<close> turns an ASCII literal into such a sequence, and the few
  non-ASCII letters of the sources are written by their code unit
  (U+0131 dotless i, U+015F s with cedilla, U+00F6 o with diaeresis, ...).
\<close>

type_synonym jsstring = "nat list"

definition js :: "string \<Rightarrow> jsstring" where
  "js s = map of_char s"

fun startsWith :: "jsstring \<Rightarrow> jsstring \<Rightarrow> bool" where
  "startsWith s [] = True"
| "startsWith [] (k # ks) = False"
| "startsWith (c # cs) (k # ks) = (c = k \<and> startsWith cs ks)"

text \<open>\<open>String.prototype.includes\<close>: the key occurs as a contiguous run of code units.\<close>

fun str_includes :: "jsstring \<Rightarrow> jsstring \<Rightarrow> bool" where
  "str_includes [] k = (k = [])"
| "str_includes (c # cs) k = (startsWith (c # cs) k \<or> str_includes cs k)"

text \<open>
  \<open>String.prototype.toLowerCase\<close>, code unit by code unit, for Basic Latin, Latin-1 and
  Latin Extended-A (U+0000 to U+017F), which covers Turkish, and for the three code units
  above that lower into this range; the letters of other scripts are left as they are.
  U+0130 (capital dotted I) lowers to the two units U+0069 U+0307.
\<close>

definition lowerUnit :: "nat \<Rightarrow> nat list" where
  "lowerUnit c =
     (if 0x41 \<le> c \<and> c \<le> 0x5A then [c + 32]
      else if 0xC0 \<le> c \<and> c \<le> 0xDE \<and> c \<noteq> 0xD7 then [c + 32]
      else if c = 0x130 then [0x69, 0x307]
      else if c = 0x178 then [0xFF]
      else if c = 0x1E9E then [0xDF]
      else if c = 0x212A then [0x6B]
      else if c = 0x212B then [0xE5]
      else if (0x100 \<le> c \<and> c \<le> 0x137 \<or> 0x14A \<le> c \<and> c \<le> 0x177) \<and> even c then [c + 1]
      else if (0x139 \<le> c \<and> c \<le> 0x148 \<or> 0x179 \<le> c \<and> c \<le> 0x17E) \<and> odd c then [c + 1]
      else [c])"

definition toLowerCase :: "jsstring \<Rightarrow> jsstring" where
  "toLowerCase s = concat (map lowerUnit s)"

text \<open>\<open>String.prototype.trim\<close> removes white space and line terminators at both ends.\<close>

definition isWhiteSpace :: "nat \<Rightarrow> bool" where
  "isWhiteSpace c \<longleftrightarrow>
     (9 \<le> c \<and> c \<le> 13) \<or> c = 0x20 \<or> c = 0xA0 \<or> c = 0x1680 \<or>
     (0x2000 \<le> c \<and> c \<le> 0x200A) \<or> c = 0x2028 \<or> c = 0x2029 \<or> c = 0x202F \<or>
     c = 0x205F \<or> c = 0x3000 \<or> c = 0xFEFF"

definition trim :: "jsstring \<Rightarrow> jsstring" where
  "trim s = rev (dropWhile isWhiteSpace (rev (dropWhile isWhiteSpace s)))"

text \<open>\<open>Array.prototype.join\<close>\<close>

fun join :: "jsstring \<Rightarrow> jsstring list \<Rightarrow> jsstring" where
  "join sep [] = []"
| "join sep [x] = x"
| "join sep (x # y # ys) = x @ sep @ join sep (y # ys)"

text \<open>\<open>Number.prototype.toString\<close> on a non-negative integer: its decimal digits.\<close>

fun toStringNat :: "nat \<Rightarrow> jsstring" where
  "toStringNat n = (if n < 10 then [48 + n] else toStringNat (n div 10) @ [48 + n mod 10])"

declare toStringNat.simps [simp del]


section \<open>Category resolver (server/category-mapping.ts)\<close>

record VariantConfig =
  sizeLabel :: "jsstring option"
  colorLabel :: "jsstring option"
  materialLabel :: "jsstring option"
  defaultStock :: int
  hasVariants :: bool

record CategoryConfig =
  shopifyCategory :: jsstring
  variantConfig :: VariantConfig
  attributes :: "jsstring list"
  inventoryTracking :: bool

definition Beden :: jsstring where "Beden = js ''Beden''"
definition Renk :: jsstring where "Renk = js ''Renk''"
definition Materyal :: jsstring where "Materyal = js ''Materyal''"
definition Kumas :: jsstring where "Kumas = js ''Kuma'' @ [0x15F]"
definition Kart_Bolmesi :: jsstring where "Kart_Bolmesi = js ''Kart B'' @ [0xF6] @ js ''lmesi''"

definition clothingAttributes :: "jsstring list" where
  "clothingAttributes = [Kumas, js ''Desen'', js ''Yaka Tipi'', js ''Kol Boyu'']"

definition key_erkek :: jsstring where "key_erkek = js ''erkek''"
definition key_kadin :: jsstring where "key_kadin = js ''kad'' @ [0x131] @ js ''n''"
definition key_tisort :: jsstring where "key_tisort = js ''ti'' @ [0x15F, 0xF6] @ js ''rt''"
definition key_cuzdan :: jsstring where "key_cuzdan = js ''c'' @ [0xFC] @ js ''zdan''"
definition key_kartlik :: jsstring where "key_kartlik = js ''kartl'' @ [0x131] @ js ''k''"
definition key_sneaker :: jsstring where "key_sneaker = js ''sneaker''"

definition config_erkek :: CategoryConfig where
  "config_erkek =
     \<lparr>shopifyCategory = js ''Apparel & Accessories > Clothing > Men's Clothing'',
      variantConfig = \<lparr>sizeLabel = Some Beden, colorLabel = Some Renk, materialLabel = None,
                       defaultStock = 50, hasVariants = True\<rparr>,
      attributes = clothingAttributes, inventoryTracking = True\<rparr>"

definition config_kadin :: CategoryConfig where
  "config_kadin =
     \<lparr>shopifyCategory = js ''Apparel & Accessories > Clothing > Women's Clothing'',
      variantConfig = \<lparr>sizeLabel = Some Beden, colorLabel = Some Renk, materialLabel = None,
                       defaultStock = 50, hasVariants = True\<rparr>,
      attributes = clothingAttributes, inventoryTracking = True\<rparr>"

definition config_tisort :: CategoryConfig where
  "config_tisort =
     \<lparr>shopifyCategory = js ''Apparel & Accessories > Clothing > Shirts & Tops'',
      variantConfig = \<lparr>sizeLabel = Some Beden, colorLabel = Some Renk, materialLabel = None,
                       defaultStock = 50, hasVariants = True\<rparr>,
      attributes = clothingAttributes, inventoryTracking = True\<rparr>"

definition config_cuzdan :: CategoryConfig where
  "config_cuzdan =
     \<lparr>shopifyCategory =
        js ''Apparel & Accessories > Handbags, Wallets & Cases > Wallets & Money Clips'',
      variantConfig = \<lparr>sizeLabel = None, colorLabel = Some Renk, materialLabel = Some Materyal,
                       defaultStock = 50, hasVariants = True\<rparr>,
      attributes = [js ''Malzeme'', js ''Boyut'',
                    js ''B'' @ [0xF6] @ js ''lme Say'' @ [0x131] @ js ''s'' @ [0x131],
                    Kart_Bolmesi],
      inventoryTracking = True\<rparr>"

definition config_kartlik :: CategoryConfig where
  "config_kartlik =
     \<lparr>shopifyCategory =
        js ''Apparel & Accessories > Handbags, Wallets & Cases > Wallets & Money Clips'',
      variantConfig = \<lparr>sizeLabel = None, colorLabel = Some Renk, materialLabel = Some Materyal,
                       defaultStock = 50, hasVariants = True\<rparr>,
      attributes = [js ''Malzeme'', js ''Boyut'', Kart_Bolmesi],
      inventoryTracking = True\<rparr>"

definition config_sneaker :: CategoryConfig where
  "config_sneaker =
     \<lparr>shopifyCategory = js ''Apparel & Accessories > Shoes > Athletic Shoes'',
      variantConfig = \<lparr>sizeLabel = Some (js ''Numara''), colorLabel = Some Renk,
                       materialLabel = None, defaultStock = 30, hasVariants = True\<rparr>,
      attributes = [js ''Taban'', Materyal, js ''Ba'' @ [0x11F] @ js ''c'' @ [0x131] @ js ''k'',
                    js ''Kullan'' @ [0x131] @ js ''m Alan'' @ [0x131]],
      inventoryTracking = True\<rparr>"

definition config_default :: CategoryConfig where
  "config_default =
     \<lparr>shopifyCategory = js ''Apparel & Accessories > Clothing'',
      variantConfig = \<lparr>sizeLabel = Some Beden, colorLabel = Some Renk, materialLabel = None,
                       defaultStock = 50, hasVariants = True\<rparr>,
      attributes = [], inventoryTracking = True\<rparr>"

text \<open>\<open>Object.entries(categoryMapping)\<close>: the entries in the order the literal lists them.\<close>

definition categoryMapping :: "(jsstring \<times> CategoryConfig) list" where
  "categoryMapping =
     [(key_erkek, config_erkek), (key_kadin, config_kadin), (key_tisort, config_tisort),
      (key_cuzdan, config_cuzdan), (key_kartlik, config_kartlik), (key_sneaker, config_sneaker)]"

text \<open>
  The first loop: for each category in turn, the first entry whose key equals the category
  or is contained in it.
\<close>

fun exactLoop :: "jsstring list \<Rightarrow> CategoryConfig option" where
  "exactLoop [] = None"
| "exactLoop (category # rest) =
     (case find (\<lambda>(key, config). category = key \<or> str_includes category key) categoryMapping of
        Some exactMatch \<Rightarrow> Some (snd exactMatch)
      | None \<Rightarrow> exactLoop rest)"

text \<open>The second loop: for each category, the first entry whose key is contained in it.\<close>

fun partialLoop :: "jsstring list \<Rightarrow> CategoryConfig option" where
  "partialLoop [] = None"
| "partialLoop (category # rest) =
     (case find (\<lambda>(key, config). str_includes category key) categoryMapping of
        Some entry \<Rightarrow> Some (snd entry)
      | None \<Rightarrow> partialLoop rest)"

definition getCategoryConfig :: "jsstring list \<Rightarrow> CategoryConfig" where
  "getCategoryConfig categories =
     (let normalizedCategories = map (\<lambda>c. trim (toLowerCase c)) categories in
      case exactLoop normalizedCategories of
        Some config \<Rightarrow> config
      | None \<Rightarrow>
         (case partialLoop normalizedCategories of
            Some config \<Rightarrow> config
          | None \<Rightarrow>
             if list_ex (\<lambda>c. str_includes c (js ''erkek'')) normalizedCategories then config_erkek
             else if list_ex (\<lambda>c. str_includes c key_kadin) normalizedCategories then config_kadin
             else config_default))"


section \<open>The parsed page\<close>

text \<open>
  The extractors read the page through cheerio queries. A page is represented by what
  those queries return on it: for a selector, the \<open>text()\<close> of each matched element in
  document order (\<open>texts\<close>) or its \<open>src\<close> attribute (\<open>srcs\<close>), the JSON-LD script
  blocks, and the nested label/value elements the attribute extractor walks through.

  A JSON-LD block is recorded by the outcome of \<open>JSON.parse\<close> on its content, and a
  parsed block by the fields the code reads, each absent or a string (the typing the code
  assumes). \<open>ld_offers_price\<close> is \<open>schema.offers?.price\<close> when truthy, as its
  \<open>toString()\<close>.
\<close>

record ld_variant =
  variant_size :: "jsstring option"
  variant_color :: "jsstring option"

record ld_property =
  prop_name :: "jsstring option"
  prop_unitText :: "jsstring option"

record ld_breadcrumb_item =
  item_name :: "jsstring option"
  item_item_name :: "jsstring option"

datatype ld_image = NoImage | OneImage jsstring | ImageArray "jsstring list"

record ld_schema =
  ld_type :: "jsstring option"
  ld_name :: "jsstring option"
  ld_description :: "jsstring option"
  ld_offers_price :: "jsstring option"
  ld_brand_name :: "jsstring option"
  ld_manufacturer :: "jsstring option"
  ld_image_contentUrl :: ld_image
  ld_hasVariant :: "ld_variant list option"
  ld_additionalProperty :: "ld_property list option"
  ld_breadcrumb :: "ld_breadcrumb_item list option"

text \<open>
  \<open>NoContent\<close>: \<open>html()\<close> is empty or null; \<open>Malformed\<close>: \<open>JSON.parse\<close> throws;
  \<open>JsonNull\<close>: the content is the JSON value null; \<open>Json\<close>: any other value.
\<close>

datatype ld_script = NoContent | Malformed | JsonNull | Json ld_schema

record attr_element =
  labelChildren :: nat
  labelChildText :: jsstring
  valueChildText :: jsstring
  cellChildren :: nat
  cellLabelText :: jsstring
  cellValueText :: jsstring
  elementText :: jsstring

record page =
  ldScripts :: "ld_script list"
  texts :: "string \<Rightarrow> jsstring list"
  srcs :: "string \<Rightarrow> jsstring option list"
  attrContainers :: "(jsstring \<times> jsstring) list list"
  attrElements :: "string \<Rightarrow> attr_element list"
  specialValues :: "jsstring \<Rightarrow> jsstring list"
  attrGroups :: "(jsstring \<times> jsstring) list list"

text \<open>A value is truthy when it is present and not the empty string.\<close>

fun truthy :: "jsstring option \<Rightarrow> bool" where
  "truthy None = False"
| "truthy (Some s) = (s \<noteq> [])"

text \<open>\<open>$(selector).map((_, el) => $(el).text().trim()).get().filter(Boolean)\<close>\<close>

definition trimmedTexts :: "page \<Rightarrow> string \<Rightarrow> jsstring list" where
  "trimmedTexts pg selector = filter (\<lambda>s. s \<noteq> []) (map trim (texts pg selector))"

text \<open>\<open>[...new Set(xs)]\<close>: the first occurrence of each element, in order.\<close>

definition uniq :: "'a list \<Rightarrow> 'a list" where
  "uniq xs = foldl (\<lambda>acc x. if x \<in> set acc then acc else acc @ [x]) [] xs"


section \<open>Variant extractor (scrapeVariants)\<close>

record variants =
  sizes :: "jsstring list"
  colors :: "jsstring list"

definition sizeSelectors :: "string list" where
  "sizeSelectors =
     [''.sp-itm:not(.so)'', ''.variant-list-item:not(.disabled)'',
      ''.size-variant-wrapper:not(.disabled)'', ''.v2-size-value'']"

definition colorSelectors :: "string list" where
  "colorSelectors =
     [''.slc-txt'', ''.color-variant-wrapper'', ''.variant-property-list span'',
      ''[data-pk=\"color\"] .variant-list-item'']"

definition isComposite :: "jsstring \<Rightarrow> bool" where
  "isComposite size_tok \<longleftrightarrow>
     str_includes size_tok (js ''XS'') \<and> str_includes size_tok (js ''S'') \<and>
     str_includes size_tok (js ''M'')"

text \<open>The \<open>reduce\<close>: a composite token leaves the accumulator as it is, any other is appended.\<close>

definition parseSizes :: "jsstring list \<Rightarrow> jsstring list" where
  "parseSizes foundSizes =
     foldl (\<lambda>acc size_tok. if isComposite size_tok then acc else acc @ [size_tok]) [] foundSizes"

definition sizeOrder :: "(jsstring \<times> nat) list" where
  "sizeOrder =
     [(js ''XXS'', 1), (js ''XS'', 2), (js ''S'', 3), (js ''M'', 4), (js ''L'', 5),
      (js ''XL'', 6), (js ''2XL'', 7), (js ''3XL'', 8), (js ''4XL'', 9), (js ''5XL'', 10),
      (js ''6XL'', 11)]"

text \<open>
  \<open>sizeOrder[a] || 99\<close>. (A token that names a member of \<open>Object.prototype\<close> is
  outside this model.)
\<close>

definition sizeRank :: "jsstring \<Rightarrow> nat" where
  "sizeRank a = (case map_of sizeOrder a of Some r \<Rightarrow> (if r = 0 then 99 else r) | None \<Rightarrow> 99)"

text \<open>
  The comparator is the difference of the ranks and \<open>Array.prototype.sort\<close> is stable, so
  the sort is the stable sort by rank.
\<close>

definition uniqueSizes :: "jsstring list \<Rightarrow> jsstring list" where
  "uniqueSizes foundSizes = sort_key sizeRank (uniq (parseSizes foundSizes))"

text \<open>
  The loop over the size selectors; \<open>break\<close> is the branch that returns. A selector whose
  texts are all dropped falls through to the next one.
\<close>

fun sizeLoop :: "page \<Rightarrow> string list \<Rightarrow> jsstring list" where
  "sizeLoop pg [] = []"
| "sizeLoop pg (selector # rest) =
     (let foundSizes = trimmedTexts pg selector in
      if length foundSizes > 0 then
        (if length (uniqueSizes foundSizes) > 0 then uniqueSizes foundSizes
         else sizeLoop pg rest)
      else sizeLoop pg rest)"

fun colorLoop :: "page \<Rightarrow> string list \<Rightarrow> jsstring list" where
  "colorLoop pg [] = []"
| "colorLoop pg (selector # rest) =
     (let found = trimmedTexts pg selector in
      if length found > 0 then uniq found else colorLoop pg rest)"

text \<open>The supplement from \<open>schema.hasVariant\<close>: a size or color is pushed when missing.\<close>

definition pushVariant :: "variants \<Rightarrow> ld_variant \<Rightarrow> variants" where
  "pushVariant vs v =
     (let vs1 = (case variant_size v of
                   Some s \<Rightarrow> if s \<noteq> [] \<and> s \<notin> set (sizes vs) then vs\<lparr>sizes := sizes vs @ [s]\<rparr> else vs
                 | None \<Rightarrow> vs)
      in case variant_color v of
           Some c \<Rightarrow> if c \<noteq> [] \<and> c \<notin> set (colors vs1) then vs1\<lparr>colors := colors vs1 @ [c]\<rparr> else vs1
         | None \<Rightarrow> vs1)"

definition scrapeVariants :: "page \<Rightarrow> ld_schema \<Rightarrow> variants" where
  "scrapeVariants pg schema =
     (let vs = \<lparr>sizes = sizeLoop pg sizeSelectors, colors = colorLoop pg colorSelectors\<rparr> in
      case ld_hasVariant schema of
        Some hasVariant \<Rightarrow> foldl pushVariant vs hasVariant
      | None \<Rightarrow> vs)"


section \<open>Attribute extractor (scrapeProductAttributes)\<close>

text \<open>
  The accumulated object \<open>attributes\<close>, as its entries in insertion order. Assigning to
  a key that is present replaces its value in place; a new key is appended.
  (Keys that name a member of \<open>Object.prototype\<close>, and keys that are array indices,
  which an object lists first, are outside this model.)
\<close>

type_synonym attrs = "(jsstring \<times> jsstring) list"

fun assign :: "attrs \<Rightarrow> jsstring \<Rightarrow> jsstring \<Rightarrow> attrs" where
  "assign [] key val = [(key, val)]"
| "assign ((k, v) # rest) key val =
     (if k = key then (key, val) # rest else (k, v) # assign rest key val)"

text \<open>The truthiness of \<open>attributes[key]\<close>.\<close>

definition bound :: "attrs \<Rightarrow> jsstring \<Rightarrow> bool" where
  "bound a key = truthy (map_of a key)"

text \<open>\<open>if (label && value) attributes[label] = value\<close>\<close>

definition assignIfBoth :: "attrs \<Rightarrow> jsstring option \<Rightarrow> jsstring option \<Rightarrow> attrs" where
  "assignIfBoth a label val =
     (case (label, val) of
        (Some l, Some v) \<Rightarrow> if l \<noteq> [] \<and> v \<noteq> [] then assign a l v else a
      | _ \<Rightarrow> a)"

text \<open>\<open>if (label && value && !attributes[label]) attributes[label] = value\<close>\<close>

definition assignIfUnbound :: "attrs \<Rightarrow> jsstring option \<Rightarrow> jsstring option \<Rightarrow> attrs" where
  "assignIfUnbound a label val =
     (case (label, val) of
        (Some l, Some v) \<Rightarrow> if l \<noteq> [] \<and> v \<noteq> [] \<and> \<not> bound a l then assign a l v else a
      | _ \<Rightarrow> a)"

text \<open>
  1. The JSON-LD blocks. An empty block is parsed as \<open>{}\<close>; a block that does not parse,
  or is null, raises inside the inner \<open>try\<close> and is skipped.
\<close>

definition schemaProperties :: "attrs \<Rightarrow> ld_script \<Rightarrow> attrs" where
  "schemaProperties a script =
     (case script of
        Json schema \<Rightarrow>
          (case ld_additionalProperty schema of
             Some props \<Rightarrow> foldl (\<lambda>acc p. assignIfBoth acc (prop_name p) (prop_unitText p)) a props
           | None \<Rightarrow> a)
      | _ \<Rightarrow> a)"

definition fromSchema :: "page \<Rightarrow> attrs \<Rightarrow> attrs" where
  "fromSchema pg a = foldl schemaProperties a (ldScripts pg)"

text \<open>2. The rows of each \<open>.detail-attr-container\<close>.\<close>

definition fromContainers :: "page \<Rightarrow> attrs \<Rightarrow> attrs" where
  "fromContainers pg a =
     foldl (\<lambda>acc container.
              foldl (\<lambda>acc' (th, td). assignIfBoth acc' (Some (trim th)) (Some (trim td)))
                acc container)
       a (attrContainers pg)"

text \<open>3. The generic selectors.\<close>

definition attributeSelectors :: "string list" where
  "attributeSelectors =
     [''.product-feature-list li'', ''.detail-attr-item'', ''.product-properties li'',
      ''.detail-border-bottom tr'', ''.product-details tr'', ''.featured-attributes-item'']"

text \<open>\<open>String.prototype.split\<close> on a one-unit separator.\<close>

fun split :: "nat \<Rightarrow> jsstring \<Rightarrow> jsstring list" where
  "split sep [] = [[]]"
| "split sep (c # cs) =
     (if c = sep then [] # split sep cs
      else (case split sep cs of [] \<Rightarrow> [[c]] | part # parts \<Rightarrow> (c # part) # parts))"

text \<open>\<open>xs[i]\<close>, with \<open>undefined\<close> out of range.\<close>

definition nth_opt :: "'a list \<Rightarrow> nat \<Rightarrow> 'a option" where
  "nth_opt xs i = (if i < length xs then Some (xs ! i) else None)"

definition labelAndValue :: "attr_element \<Rightarrow> jsstring option \<times> jsstring option" where
  "labelAndValue element =
     (if labelChildren element > 0
      then (Some (trim (labelChildText element)), Some (trim (valueChildText element)))
      else if cellChildren element > 0
      then (Some (trim (cellLabelText element)), Some (trim (cellValueText element)))
      else (let parts = map trim (split 0x3A (trim (elementText element)))
            in (nth_opt parts 0, nth_opt parts 1)))"

definition fromSelectors :: "page \<Rightarrow> attrs \<Rightarrow> attrs" where
  "fromSelectors pg a =
     foldl (\<lambda>acc selector.
              foldl (\<lambda>acc' element.
                       assignIfUnbound acc' (fst (labelAndValue element))
                         (snd (labelAndValue element)))
                acc (attrElements pg selector))
       a attributeSelectors"

text \<open>4. The canonical attribute names with their alternative labels.\<close>

definition specialAttributes :: "(jsstring \<times> jsstring list) list" where
  "specialAttributes =
     [(Materyal, [Materyal, Kumas, js ''Material'']),
      (js ''Par'' @ [0xE7] @ js ''a Say'' @ [0x131] @ js ''s'' @ [0x131],
         [js ''Par'' @ [0xE7] @ js ''a Say'' @ [0x131] @ js ''s'' @ [0x131], js ''Adet'']),
      (Renk, [Renk, js ''Color'']),
      (js ''Desen'', [js ''Desen'', js ''Pattern'']),
      (js ''Y'' @ [0x131] @ js ''kama Talimat'' @ [0x131],
         [js ''Y'' @ [0x131] @ js ''kama Talimat'' @ [0x131], js ''Y'' @ [0x131] @ js ''kama'']),
      (js ''Men'' @ [0x15F] @ js ''ei'',
         [js ''Men'' @ [0x15F] @ js ''ei'', [0xDC] @ js ''retim Yeri'', js ''Origin''])]"

text \<open>
  For one canonical name: when it is not bound yet, every element matched for every
  alternative label assigns its trimmed value text, if that is not empty.
\<close>

definition fromSpecial :: "page \<Rightarrow> attrs \<Rightarrow> jsstring \<times> jsstring list \<Rightarrow> attrs" where
  "fromSpecial pg a entry =
     (case entry of (key, alternatives) \<Rightarrow>
        if \<not> bound a key then
          foldl (\<lambda>acc alt.
                   foldl (\<lambda>acc' valueText.
                            if trim valueText \<noteq> [] then assign acc' key (trim valueText) else acc')
                     acc (specialValues pg alt))
            a alternatives
        else a)"

definition fromSpecials :: "page \<Rightarrow> attrs \<Rightarrow> attrs" where
  "fromSpecials pg a = foldl (fromSpecial pg) a specialAttributes"

text \<open>5. The items of each \<open>.featured-attributes-group\<close>.\<close>

definition fromGroups :: "page \<Rightarrow> attrs \<Rightarrow> attrs" where
  "fromGroups pg a =
     foldl (\<lambda>acc grp.
              foldl (\<lambda>acc' (label, val). assignIfBoth acc' (Some (trim label)) (Some (trim val)))
                acc grp)
       a (attrGroups pg)"

definition scrapeProductAttributes :: "page \<Rightarrow> attrs" where
  "scrapeProductAttributes pg =
     fromGroups pg (fromSpecials pg (fromSelectors pg (fromContainers pg (fromSchema pg []))))"


section \<open>Category extractor (scrapeTrendyolCategories)\<close>

text \<open>
  \<open>String.prototype.toUpperCase\<close> on one code unit, for the same range as
  \<open>lowerUnit\<close>; no code unit above U+017F has an upper case inside that range.
\<close>

definition upperUnit :: "nat \<Rightarrow> nat list" where
  "upperUnit c =
     (if 0x61 \<le> c \<and> c \<le> 0x7A then [c - 32]
      else if c = 0xB5 then [0x39C]
      else if c = 0xDF then [0x53, 0x53]
      else if 0xE0 \<le> c \<and> c \<le> 0xFE \<and> c \<noteq> 0xF7 then [c - 32]
      else if c = 0xFF then [0x178]
      else if c = 0x131 then [0x49]
      else if c = 0x149 then [0x2BC, 0x4E]
      else if c = 0x17F then [0x53]
      else if (0x100 \<le> c \<and> c \<le> 0x137 \<or> 0x14A \<le> c \<and> c \<le> 0x177) \<and> odd c then [c - 1]
      else if (0x139 \<le> c \<and> c \<le> 0x148 \<or> 0x179 \<le> c \<and> c \<le> 0x17E) \<and> even c then [c - 1]
      else [c])"

text \<open>
  The comparison of a regular expression with the flag \<open>i\<close>: a code unit stands for its
  upper case when that is one code unit, except that a non-ASCII unit never stands for an
  ASCII one.
\<close>

definition canonicalize :: "nat \<Rightarrow> nat" where
  "canonicalize ch =
     (case upperUnit ch of
        [cu] \<Rightarrow> if ch \<ge> 128 \<and> cu < 128 then ch else cu
      | _ \<Rightarrow> ch)"

fun matchesAt :: "jsstring \<Rightarrow> jsstring \<Rightarrow> bool" where
  "matchesAt [] s = True"
| "matchesAt (p # ps) [] = False"
| "matchesAt (p # ps) (c # cs) = (canonicalize p = canonicalize c \<and> matchesAt ps cs)"

definition genderWords :: "jsstring list" where
  "genderWords = [js ''erkek'', js ''kad'' @ [0x131] @ js ''n'', js ''unisex'', [0xE7] @ js ''ocuk'']"

text \<open>
  \<open>productTitle.match(/(...)/i)?.[0]\<close>, where the alternatives of the pattern are the
  four words of \<open>genderWords\<close>: the leftmost match, as it is written in the title.
\<close>

fun matchGender :: "jsstring \<Rightarrow> jsstring option" where
  "matchGender [] = None"
| "matchGender (c # cs) =
     (case find (\<lambda>w. matchesAt w (c # cs)) genderWords of
        Some w \<Rightarrow> Some (take (length w) (c # cs))
      | None \<Rightarrow> matchGender cs)"

text \<open>\<open>$(selector).first().text().trim()\<close>\<close>

definition firstText :: "page \<Rightarrow> string \<Rightarrow> jsstring" where
  "firstText pg selector = (case texts pg selector of [] \<Rightarrow> [] | t # ts \<Rightarrow> trim t)"

text \<open>\<open>$(selector).text().trim()\<close>: the texts of all matched elements, concatenated.\<close>

definition allText :: "page \<Rightarrow> string \<Rightarrow> jsstring" where
  "allText pg selector = trim (concat (texts pg selector))"

text \<open>\<open>if (x && !xs.includes(x)) xs.push(x)\<close>\<close>

definition pushNew :: "jsstring list \<Rightarrow> jsstring \<Rightarrow> jsstring list" where
  "pushNew xs x = (if x \<noteq> [] \<and> x \<notin> set xs then xs @ [x] else xs)"

text \<open>1. The breadcrumb of each JSON-LD block; a later block with names replaces an earlier.\<close>

definition breadcrumbNames :: "ld_breadcrumb_item list \<Rightarrow> jsstring list" where
  "breadcrumbNames items =
     concat (map (\<lambda>item.
        (case (if truthy (item_name item) then item_name item else item_item_name item) of
           Some n \<Rightarrow> if n \<noteq> [] \<and> n \<noteq> js ''Trendyol'' then [n] else []
         | None \<Rightarrow> [])) items)"

definition schemaCategories :: "jsstring list \<Rightarrow> ld_script \<Rightarrow> jsstring list" where
  "schemaCategories cats script =
     (case script of
        Json schema \<Rightarrow>
          (case ld_breadcrumb schema of
             Some items \<Rightarrow> if length (breadcrumbNames items) > 0 then breadcrumbNames items else cats
           | None \<Rightarrow> cats)
      | _ \<Rightarrow> cats)"

text \<open>2. The breadcrumb elements of the page.\<close>

definition breadcrumbCategories :: "page \<Rightarrow> jsstring list" where
  "breadcrumbCategories pg =
     filter (\<lambda>cat. cat \<noteq> js ''>'' \<and> cat \<noteq> js ''/'' \<and> cat \<noteq> js ''Trendyol'' \<and> length cat > 0)
       (map trim (texts pg ''.breadcrumb-wrapper span, .product-path span, .breadcrumb li''))"

text \<open>3. Brand, main category and the detail categories.\<close>

definition detailCategories :: "page \<Rightarrow> jsstring list" where
  "detailCategories pg =
     (let withBrand =
            (if firstText pg ''.pr-new-br span, .product-brand-name, .brand-name'' \<noteq> []
             then [firstText pg ''.pr-new-br span, .product-brand-name, .brand-name''] else []);
          withMain =
            (if firstText pg ''.product-category-container span'' \<noteq> []
             then withBrand @ [firstText pg ''.product-category-container span''] else withBrand)
      in foldl pushNew withMain
           (map trim (texts pg ''.detail-category-wrapper span, .product-type-wrapper span'')))"

text \<open>4. Gender and type from the title.\<close>

definition productTypes :: "jsstring list" where
  "productTypes = [js ''Giyim'', js ''Spor'', js ''Ayakkab'' @ [0x131], js ''Aksesuar'']"

definition titleCategories :: "page \<Rightarrow> jsstring list" where
  "titleCategories pg =
     (let productTitle = allText pg ''.pr-new-br'';
          type_name = firstText pg ''.product-type, .type-name'';
          gender = matchGender productTitle
      in if gender \<noteq> None \<or> type_name \<noteq> [] then
           (let withGender =
                  (case gender of
                     Some (c # cs) \<Rightarrow> [upperUnit c @ cs]
                   | _ \<Rightarrow> []);
                withType = (if type_name \<noteq> [] then withGender @ [type_name] else withGender)
            in foldl (\<lambda>parts pType.
                        if str_includes (toLowerCase productTitle) (toLowerCase pType)
                        then (if pType \<notin> set parts then parts @ [pType] else parts)
                        else parts)
                 withType productTypes)
         else [])"

text \<open>5. The title of the page, or the default category.\<close>

definition scrapeTrendyolCategories :: "page \<Rightarrow> jsstring list" where
  "scrapeTrendyolCategories pg =
     (let c1 = foldl schemaCategories [] (ldScripts pg);
          c2 = (if length c1 = 0 then breadcrumbCategories pg else c1);
          c3 = (if length c2 = 0 \<and> length (detailCategories pg) > 0 then detailCategories pg else c2);
          c4 = (if length c3 = 0 \<and> length (titleCategories pg) > 0 then titleCategories pg else c3)
      in if length c4 = 0 then
           (if allText pg ''h1.pr-new-br'' \<noteq> [] then [allText pg ''h1.pr-new-br''] else [js ''Giyim''])
         else c4)"



section \<open>Numbers\<close>

text \<open>
  A JavaScript Number is an IEEE 754 double. A finite double is represented by its exact
  value, a rational number (the two zeros are not told apart; no operation modelled here
  depends on the sign of zero).
\<close>

datatype jsnum = NaN | Infinity bool | Finite rat

definition pow2 :: "int \<Rightarrow> rat" where
  "pow2 e = (if e \<ge> 0 then 2 ^ nat e else 1 / 2 ^ nat (- e))"

definition pow10 :: "int \<Rightarrow> rat" where
  "pow10 e = (if e \<ge> 0 then 10 ^ nat e else 1 / 10 ^ nat (- e))"

text \<open>The binary exponent of a positive rational: \<open>2 ^ e \<le> a < 2 ^ (e + 1)\<close>.\<close>

definition floorLog2 :: "rat \<Rightarrow> int" where
  "floorLog2 a = (if a \<ge> 1 then bitlen \<lfloor>a\<rfloor> - 1 else - bitlen (\<lceil>1 / a\<rceil> - 1))"

definition roundHalfEven :: "rat \<Rightarrow> int" where
  "roundHalfEven r =
     (let f = \<lfloor>r\<rfloor> in
      if r - of_int f < 1 / 2 then f
      else if r - of_int f > 1 / 2 then f + 1
      else if even f then f else f + 1)"

text \<open>
  The Number value for a rational: the nearest double, ties to the even significand.
  The significand has 53 bits, the exponent of the unit in the last place is at least
  \<open>-1074\<close>, and a magnitude that rounds to \<open>2 ^ 1024\<close> is an infinity.
\<close>

definition roundDouble :: "rat \<Rightarrow> jsnum" where
  "roundDouble q =
     (if q = 0 then Finite 0
      else
        let a = \<bar>q\<bar>;
            e = max (floorLog2 a) (- 1022);
            ulp = pow2 (e - 52);
            v = of_int (roundHalfEven (a / ulp)) * ulp
        in if v \<ge> pow2 1024 then Infinity (q < 0) else Finite (if q < 0 then - v else v))"

text \<open>The operator \<open>*\<close>; \<open>Infinity neg\<close> is negative when \<open>neg\<close> holds.\<close>

fun mul :: "jsnum \<Rightarrow> jsnum \<Rightarrow> jsnum" where
  "mul (Finite x) (Finite y) = roundDouble (x * y)"
| "mul (Finite x) (Infinity t) = (if x = 0 then NaN else Infinity ((x < 0) \<noteq> t))"
| "mul (Infinity s) (Finite y) = (if y = 0 then NaN else Infinity (s \<noteq> (y < 0)))"
| "mul (Infinity s) (Infinity t) = Infinity (s \<noteq> t)"
| "mul NaN y = NaN"
| "mul x NaN = NaN"

definition isDigit :: "nat \<Rightarrow> bool" where
  "isDigit c \<longleftrightarrow> 0x30 \<le> c \<and> c \<le> 0x39"

definition digitsValue :: "jsstring \<Rightarrow> nat" where
  "digitsValue ds = foldl (\<lambda>acc c. 10 * acc + (c - 0x30)) 0 ds"

text \<open>
  The exponent part after the digits: \<open>e\<close> or \<open>E\<close>, an optional sign and at least one
  digit; anything else is not part of the number.
\<close>

definition exponentPart :: "jsstring \<Rightarrow> int" where
  "exponentPart r =
     (case r of
        [] \<Rightarrow> 0
      | c # t \<Rightarrow>
          if c = 0x65 \<or> c = 0x45 then
            (case t of
               [] \<Rightarrow> 0
             | d # u \<Rightarrow>
                 if d = 0x2B \<and> takeWhile isDigit u \<noteq> []
                 then int (digitsValue (takeWhile isDigit u))
                 else if d = 0x2D \<and> takeWhile isDigit u \<noteq> []
                 then - int (digitsValue (takeWhile isDigit u))
                 else if takeWhile isDigit t \<noteq> []
                 then int (digitsValue (takeWhile isDigit t))
                 else 0)
          else 0)"

text \<open>
  The longest prefix that is an unsigned decimal literal (digits, an optional fraction,
  an optional exponent; at least one digit before or after the point), as its exact value.
\<close>

definition unsignedLiteral :: "jsstring \<Rightarrow> rat option" where
  "unsignedLiteral s =
     (let ip = takeWhile isDigit s;
          r1 = dropWhile isDigit s;
          fp = (case r1 of [] \<Rightarrow> [] | c # t \<Rightarrow> if c = 0x2E then takeWhile isDigit t else []);
          r2 = (case r1 of [] \<Rightarrow> [] | c # t \<Rightarrow> if c = 0x2E then dropWhile isDigit t else r1)
      in if ip = [] \<and> fp = [] then None
         else Some ((of_nat (digitsValue ip) + of_nat (digitsValue fp) * pow10 (- int (length fp)))
                    * pow10 (exponentPart r2)))"

text \<open>
  \<open>parseFloat\<close>: leading white space is skipped, then a sign, then \<open>Infinity\<close> or a
  decimal literal; the result is \<open>NaN\<close> when there is neither. The literal is rounded
  from its exact value, whatever the number of its digits.
\<close>

definition parseFloat :: "jsstring \<Rightarrow> jsnum" where
  "parseFloat s =
     (let t = dropWhile isWhiteSpace s;
          neg = (case t of [] \<Rightarrow> False | c # r \<Rightarrow> c = 0x2D);
          u = (case t of [] \<Rightarrow> [] | c # r \<Rightarrow> if c = 0x2D \<or> c = 0x2B then r else t)
      in if startsWith u (js ''Infinity'') then Infinity neg
         else (case unsignedLiteral u of
                 None \<Rightarrow> NaN
               | Some mv \<Rightarrow> roundDouble (if neg then - mv else mv)))"

text \<open>
  The digits of a number of cents, padded with zeros to three, with the point before the
  last two.
\<close>

definition centsNotation :: "nat \<Rightarrow> jsstring" where
  "centsNotation n =
     (let m = toStringNat n;
          m' = replicate (3 - length m) 0x30 @ m
      in take (length m' - 2) m' @ [0x2E] @ drop (length m' - 2) m')"

text \<open>
  \<open>toFixed(2)\<close> on a magnitude below \<open>10 ^ 21\<close>: the integer \<open>n\<close> for which \<open>n / 100\<close>
  is nearest to it, the larger one of two, in that notation.
\<close>

definition fixedDigits :: "rat \<Rightarrow> jsstring" where
  "fixedDigits x = centsNotation (nat \<lfloor>x * 100 + 1 / 2\<rfloor>)"

text \<open>
  \<open>Number.prototype.toString\<close> on a double \<open>x \<ge> 10 ^ 21\<close>: the exponential notation
  of the shortest digit string \<open>s\<close> (with \<open>k\<close> digits) for which \<open>s * 10 ^ (n - k)\<close> reads
  back as \<open>x\<close>, the nearest to \<open>x\<close> among those of that length.
\<close>

definition expCandidates :: "rat \<Rightarrow> nat \<Rightarrow> (nat \<times> nat) list" where
  "expCandidates x k =
     (let d = length (toStringNat (nat \<lfloor>x\<rfloor>)) in
      concat (map (\<lambda>n. concat (map (\<lambda>s.
          if 10 ^ (k - 1) \<le> s \<and> s < 10 ^ k \<and> roundDouble (of_nat s * 10 ^ (n - k)) = Finite x
          then [(n, s)] else [])
        [nat \<lfloor>x / 10 ^ (n - k)\<rfloor>, nat \<lfloor>x / 10 ^ (n - k)\<rfloor> + 1])) [d, d + 1]))"

definition closer :: "rat \<Rightarrow> nat \<Rightarrow> nat \<times> nat \<Rightarrow> nat \<times> nat \<Rightarrow> nat \<times> nat" where
  "closer x k c1 c2 =
     (let e1 = \<bar>of_nat (snd c1) * 10 ^ (fst c1 - k) - x\<bar>;
          e2 = \<bar>of_nat (snd c2) * 10 ^ (fst c2 - k) - x\<bar>
      in if e2 < e1 \<or> (e2 = e1 \<and> even (snd c2) \<and> odd (snd c1)) then c2 else c1)"

definition exponential :: "rat \<Rightarrow> jsstring" where
  "exponential x =
     (case find (\<lambda>k. expCandidates x k \<noteq> []) [1 ..< 18] of
        None \<Rightarrow> []
      | Some k \<Rightarrow>
          (case expCandidates x k of
             [] \<Rightarrow> []
           | c # cs \<Rightarrow>
               (let (n, s) = foldl (closer x k) c cs; ds = toStringNat s
                in (if k = 1 then ds else take 1 ds @ [0x2E] @ drop 1 ds)
                   @ js ''e+'' @ toStringNat (n - 1))))"

definition toFixed2 :: "jsnum \<Rightarrow> jsstring" where
  "toFixed2 x =
     (case x of
        NaN \<Rightarrow> js ''NaN''
      | Infinity neg \<Rightarrow> (if neg then js ''-Infinity'' else js ''Infinity'')
      | Finite r \<Rightarrow>
          (if r < 0 then js ''-'' else [])
          @ (if \<bar>r\<bar> \<ge> 10 ^ 21 then exponential \<bar>r\<bar> else fixedDigits \<bar>r\<bar>))"


section \<open>Errors (server/errors.ts)\<close>

text \<open>
  The error classes of the application, and the classes of the runtime and the libraries
  that reach \<open>handleError\<close>. The details of a scraping error are the status and the
  status text of the response. The issues a \<open>ZodError\<close> carries are read nowhere.
\<close>

datatype js_error =
    TrendyolScrapingError jsstring "(nat \<times> jsstring) option"
  | URLValidationError jsstring
  | ProductDataError jsstring jsstring
  | ZodError
  | SyntaxError
  | TypeError
  | FetchError
  | Error jsstring

text \<open>\<open>error instanceof TrendyolScrapingError\<close>\<close>

fun isTrendyolScrapingError :: "js_error \<Rightarrow> bool" where
  "isTrendyolScrapingError (TrendyolScrapingError msg det) = True"
| "isTrendyolScrapingError e = False"

record error_response =
  status :: nat
  message :: jsstring
  details :: "(nat \<times> jsstring) option"

fun handleError :: "js_error \<Rightarrow> error_response" where
  "handleError (TrendyolScrapingError msg det) =
     \<lparr>status = 500, message = [0xDC] @ js ''r'' @ [0xFC] @ js ''n verisi '' @ [0xE7] @ js ''ekilirken hata olu'' @ [0x15F] @ js ''tu: '' @ msg,
      details = det\<rparr>"
| "handleError (URLValidationError msg) = \<lparr>status = 400, message = msg, details = None\<rparr>"
| "handleError (ProductDataError msg field) =
     \<lparr>status = 422, message = field @ js '' alan'' @ [0x131] @ js ''nda hata: '' @ msg, details = None\<rparr>"
| "handleError e =
     \<lparr>status = 500, message = js ''Beklenmeyen bir hata olu'' @ [0x15F] @ js ''tu'', details = None\<rparr>"


section \<open>Price extractor (scrapePrice)\<close>

text \<open>\<open>String.prototype.replace\<close> with a string pattern: the first occurrence only.\<close>

fun replaceFirst :: "jsstring \<Rightarrow> jsstring \<Rightarrow> jsstring \<Rightarrow> jsstring" where
  "replaceFirst pat rep [] = (if pat = [] then rep else [])"
| "replaceFirst pat rep (c # cs) =
     (if startsWith (c # cs) pat then rep @ drop (length pat) (c # cs)
      else c # replaceFirst pat rep cs)"

text \<open>The Number value of the literal \<open>1.15\<close>.\<close>

definition literal_1_15 :: jsnum where
  "literal_1_15 = roundDouble (115 / 100)"

text \<open>\<open>(parseFloat(basePrice) * 1.15).toFixed(2)\<close>\<close>

definition derivedPrice :: "jsstring \<Rightarrow> jsstring" where
  "derivedPrice base = toFixed2 (mul (parseFloat base) literal_1_15)"

text \<open>\<open>el.first().text().trim().replace('TL', '').trim()\<close> and the derived price.\<close>

definition priceFromElement :: "jsstring \<Rightarrow> jsstring \<times> jsstring" where
  "priceFromElement txt =
     (let base = trim (replaceFirst (js ''TL'') [] (trim txt))
      in (derivedPrice base, base))"

definition priceSelector :: string where
  "priceSelector = ''.prc-dsc, .product-price-container .current-price''"

definition altPriceSelector :: string where
  "altPriceSelector = ''.product-price, .discounted-price''"

text \<open>The two DOM strategies and the final \<open>throw\<close>.\<close>

definition priceFromDom :: "page \<Rightarrow> js_error + jsstring \<times> jsstring" where
  "priceFromDom pg =
     (case texts pg priceSelector of
        t # ts \<Rightarrow> Inr (priceFromElement t)
      | [] \<Rightarrow>
          (case texts pg altPriceSelector of
             t # ts \<Rightarrow> Inr (priceFromElement t)
           | [] \<Rightarrow> Inl (Error (js ''Fiyat bilgisi bulunamad'' @ [0x131]))))"

text \<open>
  The result is the pair \<open>(price, basePrice)\<close>. The first JSON-LD block is parsed when
  its content is not empty; a parse error and the read of \<open>offers\<close> on null are raised
  again by the \<open>catch\<close>.
\<close>

definition scrapePrice :: "page \<Rightarrow> js_error + jsstring \<times> jsstring" where
  "scrapePrice pg =
     (case ldScripts pg of
        [] \<Rightarrow> priceFromDom pg
      | NoContent # rest \<Rightarrow> priceFromDom pg
      | Malformed # rest \<Rightarrow> Inl SyntaxError
      | JsonNull # rest \<Rightarrow> Inl TypeError
      | Json schema # rest \<Rightarrow>
          (case ld_offers_price schema of
             Some base \<Rightarrow> Inr (derivedPrice base, base)
           | None \<Rightarrow> priceFromDom pg))"


section \<open>Product records (shared/schema.ts)\<close>

text \<open>
  \<open>attributes\<close> is the object's entries in the order \<open>Object.entries\<close> gives them.
  \<open>brand\<close> is set by the scrape handler although the table schema has no such column;
  the exporter reads it as an optional field.
\<close>

record InsertProduct =
  url :: jsstring
  title :: jsstring
  description :: jsstring
  price :: jsstring
  basePrice :: jsstring
  images :: "jsstring list"
  variants :: variants
  attributes :: "(jsstring \<times> jsstring) list"
  categories :: "jsstring list"
  tags :: "jsstring list"
  brand :: "jsstring option"

record Product = InsertProduct +
  product_id :: nat


section \<open>Cache (server/storage.ts)\<close>

text \<open>The map from URL to product and the next identifier.\<close>

record MemStorage =
  products :: "jsstring \<rightharpoonup> Product"
  currentId :: nat

definition newStorage :: MemStorage where
  "newStorage = \<lparr>products = Map.empty, currentId = 1\<rparr>"

text \<open>\<open>{ ...insertProduct, id }\<close>\<close>

definition withId :: "InsertProduct \<Rightarrow> nat \<Rightarrow> Product" where
  "withId ip n =
     \<lparr>url = url ip, title = title ip, description = description ip, price = price ip,
      basePrice = basePrice ip, images = images ip, variants = variants ip,
      attributes = attributes ip, categories = categories ip, tags = tags ip,
      brand = brand ip, product_id = n\<rparr>"

definition saveProduct :: "MemStorage \<Rightarrow> InsertProduct \<Rightarrow> MemStorage \<times> Product" where
  "saveProduct st insertProduct =
     (let product = withId insertProduct (currentId st)
      in (\<lparr>products = (products st)(url product \<mapsto> product), currentId = currentId st + 1\<rparr>,
          product))"

definition getProduct :: "MemStorage \<Rightarrow> jsstring \<Rightarrow> Product option" where
  "getProduct st u = products st u"


section \<open>The scrape request (routes, POST /api/scrape)\<close>

text \<open>
  \<open>urlSchema.parse(req.body)\<close>. The body is given by its \<open>url\<close> property when that is a
  string. \<open>new URL\<close> belongs to the runtime: \<open>parseUrl\<close> gives the host name and the path
  name of a string, and nothing when the constructor throws.
\<close>

type_synonym url_parser = "jsstring \<Rightarrow> (jsstring \<times> jsstring) option"

definition isProductUrl :: "url_parser \<Rightarrow> jsstring \<Rightarrow> bool" where
  "isProductUrl parseUrl u =
     (case parseUrl u of
        None \<Rightarrow> False
      | Some (hostname, pathname) \<Rightarrow>
          hostname = js ''www.trendyol.com'' \<and>
          (str_includes pathname (js ''/p-'') \<or> str_includes pathname (js ''-p-'')))"

definition urlSchema_parse :: "url_parser \<Rightarrow> jsstring option \<Rightarrow> js_error + jsstring" where
  "urlSchema_parse parseUrl body =
     (case body of
        None \<Rightarrow> Inl ZodError
      | Some u \<Rightarrow> if isProductUrl parseUrl u then Inr u else Inl ZodError)"

text \<open>The images: those of the JSON-LD block, else the detail image and the gallery.\<close>

definition schemaImages :: "ld_schema \<Rightarrow> jsstring list" where
  "schemaImages schema =
     (case ld_image_contentUrl schema of
        NoImage \<Rightarrow> []
      | OneImage s \<Rightarrow> if s \<noteq> [] then [s] else []
      | ImageArray xs \<Rightarrow> xs)"

definition pushSrc :: "jsstring list \<Rightarrow> jsstring option \<Rightarrow> jsstring list" where
  "pushSrc imgs src = (case src of Some s \<Rightarrow> pushNew imgs s | None \<Rightarrow> imgs)"

definition domImages :: "page \<Rightarrow> jsstring list" where
  "domImages pg =
     (let mainImage = (case srcs pg ''img.detail-section-img'' of [] \<Rightarrow> None | s # ss \<Rightarrow> s);
          imgs = (case mainImage of Some s \<Rightarrow> if s \<noteq> [] then [s] else [] | None \<Rightarrow> [])
      in foldl pushSrc imgs (srcs pg ''div.gallery-modal-content img''))"

definition scrapeImages :: "page \<Rightarrow> ld_schema \<Rightarrow> js_error + jsstring list" where
  "scrapeImages pg schema =
     (let imgs = (if length (schemaImages schema) = 0 then domImages pg else schemaImages schema)
      in if length imgs = 0
         then Inl (ProductDataError (js ''G'' @ [0xF6] @ js ''rseller i'' @ [0x15F] @ js ''lenirken hata olu'' @ [0x15F] @ js ''tu'') (js ''images''))
         else Inr imgs)"

text \<open>\<open>schema.brand?.name || schema.manufacturer || title.split(' ')[0]\<close>\<close>

definition brandOf :: "ld_schema \<Rightarrow> jsstring \<Rightarrow> jsstring" where
  "brandOf schema t =
     (case ld_brand_name schema of
        Some b \<Rightarrow> if b \<noteq> [] then b else
          (case ld_manufacturer schema of
             Some m \<Rightarrow> if m \<noteq> [] then m else takeWhile (\<lambda>c. c \<noteq> 0x20) t
           | None \<Rightarrow> takeWhile (\<lambda>c. c \<noteq> 0x20) t)
      | None \<Rightarrow>
          (case ld_manufacturer schema of
             Some m \<Rightarrow> if m \<noteq> [] then m else takeWhile (\<lambda>c. c \<noteq> 0x20) t
           | None \<Rightarrow> takeWhile (\<lambda>c. c \<noteq> 0x20) t))"

text \<open>
  The error with which the \<open>catch\<close> around the reading of the schema block replaces
  every error raised there.
\<close>

definition schemaError :: js_error where
  "schemaError = ProductDataError ([0xDC] @ js ''r'' @ [0xFC] @ js ''n '' @ [0x15F] @ js ''emas'' @ [0x131] @ js '' ge'' @ [0xE7] @ js ''ersiz'') (js ''schema'')"

text \<open>
  The outcome of \<open>fetch\<close>: the request fails, or a response arrives with its \<open>ok\<close>
  flag, status, status text and the page its text is loaded as.
\<close>

datatype fetch_result = NetworkFailure | Response bool nat jsstring page

text \<open>What the handler sends: \<open>res.json(product)\<close> or \<open>res.status(s).json({message, details})\<close>.\<close>

datatype reply = ProductReply Product | ErrorReply error_response

text \<open>
  The state the requests share: the cache, and the URLs for which \<open>fetch\<close> has been
  called so far.
\<close>

record server =
  storage :: MemStorage
  fetched :: "jsstring list"

text \<open>
  The handler is an async function: at each \<open>await\<close> it gives way, and other requests
  may run before it goes on. A task is a request waiting at one of the awaits of the
  handler, in their order in the source, with the values of the local variables that the
  rest of the handler reads: the URL, the loaded page, the schema block, the pair
  \<open>(price, basePrice)\<close>, the categories, the attributes, the images and the variants.
  An async function called at an await runs when it is called, so the task holds
  its result. \<open>Finished\<close> is a request that has been answered.
\<close>

datatype task =
    AwaitGetProduct jsstring "Product option"
  | AwaitFetch jsstring
  | AwaitText jsstring page
  | AwaitScrapePrice jsstring page ld_schema "js_error + jsstring \<times> jsstring"
  | AwaitCategories jsstring page ld_schema "jsstring \<times> jsstring" "jsstring list"
  | AwaitAttributes jsstring page ld_schema "jsstring \<times> jsstring" "jsstring list"
      "(jsstring \<times> jsstring) list"
  | AwaitVariants jsstring ld_schema "jsstring \<times> jsstring" "jsstring list"
      "(jsstring \<times> jsstring) list" "jsstring list" variants
  | AwaitSaveProduct Product
  | Finished reply

text \<open>The \<open>catch\<close> of the handler: \<open>res.status(status).json({ message, details })\<close>.\<close>

definition failed :: "js_error \<Rightarrow> task" where
  "failed e = Finished (ErrorReply (handleError e))"

text \<open>
  The handler from its start to its first await: the body is parsed and
  \<open>storage.getProduct(url)\<close> is called. Nothing is fetched and nothing is written.
\<close>

definition receive :: "url_parser \<Rightarrow> server \<Rightarrow> jsstring option \<Rightarrow> task" where
  "receive parseUrl sv body =
     (case urlSchema_parse parseUrl body of
        Inl e \<Rightarrow> failed e
      | Inr u \<Rightarrow> AwaitGetProduct u (getProduct (storage sv) u))"

text \<open>
  The handler from one await to the next, or to its answer. \<open>web\<close> is the network as
  this request finds it. The lookup has been made when the task was received; on a miss
  \<open>fetch\<close> is called. \<open>storage.saveProduct\<close> is called, and writes to the cache, in the
  step that ends at its await.
\<close>

fun resume :: "(jsstring \<Rightarrow> fetch_result) \<Rightarrow> server \<Rightarrow> task \<Rightarrow> server \<times> task" where
  "resume web sv (AwaitGetProduct u existing) =
     (case existing of
        Some product \<Rightarrow> (sv, Finished (ProductReply product))
      | None \<Rightarrow> (sv\<lparr>fetched := fetched sv @ [u]\<rparr>, AwaitFetch u))"
| "resume web sv (AwaitFetch u) =
     (case web u of
        NetworkFailure \<Rightarrow> (sv, failed FetchError)
      | Response ok st stText pg \<Rightarrow>
          if \<not> ok then
            (sv, failed (TrendyolScrapingError ([0xDC] @ js ''r'' @ [0xFC] @ js ''n sayfas'' @ [0x131] @ js '' y'' @ [0xFC] @ js ''klenemedi'') (Some (st, stText))))
          else (sv, AwaitText u pg))"
| "resume web sv (AwaitText u pg) =
     (sv,
      case ldScripts pg of
        [] \<Rightarrow> failed (ProductDataError ([0xDC] @ js ''r'' @ [0xFC] @ js ''n '' @ [0x15F] @ js ''emas'' @ [0x131] @ js '' bulunamad'' @ [0x131]) (js ''schema''))
      | NoContent # rest \<Rightarrow> failed (ProductDataError ([0xDC] @ js ''r'' @ [0xFC] @ js ''n '' @ [0x15F] @ js ''emas'' @ [0x131] @ js '' bulunamad'' @ [0x131]) (js ''schema''))
      | Malformed # rest \<Rightarrow> failed schemaError
      | JsonNull # rest \<Rightarrow> failed schemaError
      | Json schema # rest \<Rightarrow>
          (case (ld_type schema, ld_name schema) of
             (Some ty, Some t) \<Rightarrow>
               if ty = [] \<or> t = [] then failed schemaError
               else AwaitScrapePrice u pg schema (scrapePrice pg)
           | _ \<Rightarrow> failed schemaError))"
| "resume web sv (AwaitScrapePrice u pg schema result) =
     (sv,
      case result of
        Inl e \<Rightarrow> failed e
      | Inr (derived, base) \<Rightarrow>
          if \<not> truthy (ld_description schema) \<or> derived = []
          then failed (ProductDataError (js ''Temel '' @ [0xFC] @ js ''r'' @ [0xFC] @ js ''n bilgileri eksik'') (js ''basicInfo''))
          else AwaitCategories u pg schema (derived, base) (scrapeTrendyolCategories pg))"
| "resume web sv (AwaitCategories u pg schema prices cats) =
     (sv, AwaitAttributes u pg schema prices cats (scrapeProductAttributes pg))"
| "resume web sv (AwaitAttributes u pg schema prices cats attrs) =
     (sv,
      case scrapeImages pg schema of
        Inl e \<Rightarrow> failed e
      | Inr imgs \<Rightarrow> AwaitVariants u schema prices cats attrs imgs (scrapeVariants pg schema))"
| "resume web sv (AwaitVariants u schema prices cats attrs imgs vars) =
     (let t = (case ld_name schema of Some n \<Rightarrow> n | None \<Rightarrow> []);
          product =
            \<lparr>url = u, title = t,
             description = (case ld_description schema of Some d \<Rightarrow> d | None \<Rightarrow> []),
             price = fst prices, basePrice = snd prices, images = imgs, variants = vars,
             attributes = attrs, categories = cats, tags = cats,
             brand = Some (brandOf schema t)\<rparr>;
          (st', saved) = saveProduct (storage sv) product
      in (sv\<lparr>storage := st'\<rparr>, AwaitSaveProduct saved))"
| "resume web sv (AwaitSaveProduct saved) = (sv, Finished (ProductReply saved))"
| "resume web sv (Finished r) = (sv, Finished r)"

text \<open>The number of steps a task is from its answer, at most.\<close>

fun stepsLeft :: "task \<Rightarrow> nat" where
  "stepsLeft (AwaitGetProduct u existing) = 8"
| "stepsLeft (AwaitFetch u) = 7"
| "stepsLeft (AwaitText u pg) = 6"
| "stepsLeft (AwaitScrapePrice u pg schema result) = 5"
| "stepsLeft (AwaitCategories u pg schema prices cats) = 4"
| "stepsLeft (AwaitAttributes u pg schema prices cats attrs) = 3"
| "stepsLeft (AwaitVariants u schema prices cats attrs imgs vars) = 2"
| "stepsLeft (AwaitSaveProduct saved) = 1"
| "stepsLeft (Finished r) = 0"

text \<open>A task taken to its answer with no other request in between.\<close>

function (sequential) answerAlone ::
  "(jsstring \<Rightarrow> fetch_result) \<Rightarrow> server \<Rightarrow> task \<Rightarrow> server \<times> reply" where
  "answerAlone web sv (Finished r) = (sv, r)"
| "answerAlone web sv t = answerAlone web (fst (resume web sv t)) (snd (resume web sv t))"
  by pat_completeness auto

termination
  by (relation "measure (\<lambda>(web, sv, t). stepsLeft t)")
    (auto simp: failed_def Let_def
      split: option.splits fetch_result.splits list.splits ld_script.splits sum.splits
        prod.splits if_splits)

text \<open>One request handled alone, from its arrival to its answer.\<close>

definition scrapeHandler ::
  "url_parser \<Rightarrow> (jsstring \<Rightarrow> fetch_result) \<Rightarrow> server \<Rightarrow> jsstring option \<Rightarrow> server \<times> reply" where
  "scrapeHandler parseUrl web sv body = answerAlone web sv (receive parseUrl sv body)"

text \<open>
  The running server: the shared state and the requests received so far, each with the
  network as it finds it, its body and the task it has become.
\<close>

record job =
  network :: "jsstring \<Rightarrow> fetch_result"
  request :: "jsstring option"
  stage :: task

record runtime =
  srv :: server
  jobs :: "job list"

text \<open>
  What happens on the server: a request arrives and runs to its first await, or the
  request with a given number goes on from its await to the next. Events may follow one
  another in any order, so every schedule of the event loop is among the sequences of
  events; a property of all sequences holds of the server however its requests overlap.
\<close>

datatype event = Arrive "jsstring \<Rightarrow> fetch_result" "jsstring option" | Continue nat

fun occur :: "url_parser \<Rightarrow> runtime \<Rightarrow> event \<Rightarrow> runtime" where
  "occur parseUrl rt (Arrive web body) =
     rt\<lparr>jobs := jobs rt @ [\<lparr>network = web, request = body,
                               stage = receive parseUrl (srv rt) body\<rparr>]\<rparr>"
| "occur parseUrl rt (Continue i) =
     (if i < length (jobs rt) then
        (let j = jobs rt ! i;
             (sv', t) = resume (network j) (srv rt) (stage j)
         in \<lparr>srv = sv', jobs = (jobs rt)[i := j\<lparr>stage := t\<rparr>]\<rparr>)
      else rt)"

definition afterEvents :: "url_parser \<Rightarrow> runtime \<Rightarrow> event list \<Rightarrow> runtime" where
  "afterEvents parseUrl rt evs = foldl (occur parseUrl) rt evs"

text \<open>
  A task that has found no cache entry for the URL \<open>u\<close> and has not called
  \<open>saveProduct\<close> yet: it may still write an entry for \<open>u\<close>.
\<close>

fun pending :: "jsstring \<Rightarrow> task \<Rightarrow> bool" where
  "pending u (AwaitGetProduct v existing) = (v = u \<and> existing = None)"
| "pending u (AwaitFetch v) = (v = u)"
| "pending u (AwaitText v pg) = (v = u)"
| "pending u (AwaitScrapePrice v pg schema result) = (v = u)"
| "pending u (AwaitCategories v pg schema prices cats) = (v = u)"
| "pending u (AwaitAttributes v pg schema prices cats attrs) = (v = u)"
| "pending u (AwaitVariants v schema prices cats attrs imgs vars) = (v = u)"
| "pending u (AwaitSaveProduct saved) = False"
| "pending u (Finished r) = False"

text \<open>
  A task of a request for the URL \<open>u\<close> that has the cache right: what it has looked up,
  saved or sent is the entry of \<open>u\<close>.
\<close>

fun tracks :: "jsstring \<Rightarrow> server \<Rightarrow> task \<Rightarrow> bool" where
  "tracks u sv (AwaitGetProduct v existing) = (v = u \<and> existing = getProduct (storage sv) u)"
| "tracks u sv (AwaitFetch v) = (v = u)"
| "tracks u sv (AwaitText v pg) = (v = u)"
| "tracks u sv (AwaitScrapePrice v pg schema result) = (v = u)"
| "tracks u sv (AwaitCategories v pg schema prices cats) = (v = u)"
| "tracks u sv (AwaitAttributes v pg schema prices cats attrs) = (v = u)"
| "tracks u sv (AwaitVariants v schema prices cats attrs imgs vars) = (v = u)"
| "tracks u sv (AwaitSaveProduct saved) = (getProduct (storage sv) u = Some saved)"
| "tracks u sv (Finished r) =
     (case r of ProductReply p \<Rightarrow> getProduct (storage sv) u = Some p | ErrorReply e \<Rightarrow> True)"

text \<open>
  A task of a request for the URL \<open>u\<close> that is answered with the record \<open>p\<close>: it has
  found \<open>p\<close> in the cache, or it has sent \<open>p\<close>.
\<close>

definition served :: "jsstring \<Rightarrow> Product \<Rightarrow> task \<Rightarrow> bool" where
  "served u p t \<longleftrightarrow> t = AwaitGetProduct u (Some p) \<or> t = Finished (ProductReply p)"

text \<open>
  The record \<open>p\<close> is in the cache under \<open>u\<close>, no task may still write an entry for \<open>u\<close>,
  and the requests for \<open>u\<close> from number \<open>n\<close> on are answered with \<open>p\<close>.
\<close>

definition cachedQuiet :: "jsstring \<Rightarrow> Product \<Rightarrow> nat \<Rightarrow> runtime \<Rightarrow> bool" where
  "cachedQuiet u p n rt \<longleftrightarrow>
     getProduct (storage (srv rt)) u = Some p \<and>
     (\<forall>j \<in> set (jobs rt). \<not> pending u (stage j)) \<and>
     (\<forall>i. n \<le> i \<longrightarrow> i < length (jobs rt) \<longrightarrow> request (jobs rt ! i) = Some u \<longrightarrow>
        served u p (stage (jobs rt ! i)))"



section \<open>CSV exporter (exportToShopify)\<close>

definition isLowerAlnum :: "nat \<Rightarrow> bool" where
  "isLowerAlnum c \<longleftrightarrow> (0x61 \<le> c \<and> c \<le> 0x7A) \<or> (0x30 \<le> c \<and> c \<le> 0x39)"

text \<open>
  \<open>.replace(/[^a-z0-9]+/g, '-')\<close>: every maximal run of other code units becomes one
  hyphen (a unit of such a run that is followed by another one is dropped, the last one
  becomes the hyphen).
\<close>

fun replaceNonAlnumRuns :: "jsstring \<Rightarrow> jsstring" where
  "replaceNonAlnumRuns [] = []"
| "replaceNonAlnumRuns [c] = (if isLowerAlnum c then [c] else [0x2D])"
| "replaceNonAlnumRuns (c # d # cs) =
     (if isLowerAlnum c then c # replaceNonAlnumRuns (d # cs)
      else if isLowerAlnum d then 0x2D # replaceNonAlnumRuns (d # cs)
      else replaceNonAlnumRuns (d # cs))"

text \<open>\<open>.replace(/-+/g, '-')\<close>: every run of hyphens becomes one hyphen.\<close>

fun collapseHyphens :: "jsstring \<Rightarrow> jsstring" where
  "collapseHyphens [] = []"
| "collapseHyphens [c] = [c]"
| "collapseHyphens (c # d # cs) =
     (if c = 0x2D \<and> d = 0x2D then collapseHyphens (d # cs) else c # collapseHyphens (d # cs))"

text \<open>\<open>.replace(/^-|-$/g, '')\<close>: a hyphen at the start and a hyphen at the end are removed.\<close>

definition stripHyphenStart :: "jsstring \<Rightarrow> jsstring" where
  "stripHyphenStart s = (case s of [] \<Rightarrow> [] | c # cs \<Rightarrow> if c = 0x2D then cs else s)"

definition stripHyphenEnds :: "jsstring \<Rightarrow> jsstring" where
  "stripHyphenEnds s = rev (stripHyphenStart (rev (stripHyphenStart s)))"

definition handleOf :: "jsstring \<Rightarrow> jsstring" where
  "handleOf t = stripHyphenEnds (collapseHyphens (replaceNonAlnumRuns (toLowerCase t)))"

text \<open>\<open>.replace(/"/g, '""')\<close>\<close>

definition doubleQuotes :: "jsstring \<Rightarrow> jsstring" where
  "doubleQuotes s = concat (map (\<lambda>c. if c = 0x22 then [0x22, 0x22] else [c]) s)"

definition attributesHtml :: "(jsstring \<times> jsstring) list \<Rightarrow> jsstring" where
  "attributesHtml attrs =
     join (js ''<br>'') (map (\<lambda>(key, val). js ''<strong>'' @ key @ js '':</strong> '' @ val) attrs)"

text \<open>The template literal of the body, with its line breaks and indentation.\<close>

definition bodyHtml :: "(jsstring \<times> jsstring) list \<Rightarrow> jsstring" where
  "bodyHtml attrs =
     doubleQuotes
       (js ''<div class='' @ [0x22] @ js ''product-features'' @ [0x22] @ js ''>'' @ [0x0A] @
        js ''        <h3>'' @ [0xDC] @ js ''r'' @ [0xFC] @ js ''n '' @ [0xD6] @
        js ''zellikleri</h3>'' @ [0x0A] @
        js ''        <div class='' @ [0x22] @ js ''features-list'' @ [0x22] @ js ''>'' @ [0x0A] @
        js ''          '' @ attributesHtml attrs @ [0x0A] @
        js ''        </div>'' @ [0x0A] @
        js ''      </div>'')"

definition seoDescription :: "(jsstring \<times> jsstring) list \<Rightarrow> jsstring" where
  "seoDescription attrs =
     doubleQuotes (take 320 (join (js ''. '') (map (\<lambda>(key, val). key @ js '': '' @ val) attrs)))"

text \<open>
  A record handed to the CSV writer: the properties of the object literal in order; a
  property whose value is \<open>undefined\<close> holds \<open>None\<close>.
\<close>

type_synonym csv_record = "(string \<times> jsstring option) list"

text \<open>\<open>xs[i] || fallback\<close> on an array of strings.\<close>

definition nth_or :: "jsstring list \<Rightarrow> nat \<Rightarrow> jsstring option \<Rightarrow> jsstring option" where
  "nth_or xs i fallback = (if i < length xs \<and> xs ! i \<noteq> [] then Some (xs ! i) else fallback)"

definition mainRecord :: "Product \<Rightarrow> csv_record" where
  "mainRecord product =
     [(''Title'', Some (title product)),
      (''Handle'', Some (handleOf (title product))),
      (''Body (HTML)'', Some (bodyHtml (attributes product))),
      (''Vendor'', Some (case brand product of Some b \<Rightarrow> b | None \<Rightarrow> [])),
      (''Product Category'', Some (js ''Apparel & Accessories > Clothing'')),
      (''Type'', Some (js ''Clothing'')),
      (''Tags'', Some (join (js '','') (categories product))),
      (''Published'', Some (js ''TRUE'')),
      (''Status'', Some (js ''active'')),
      (''SKU'', Some (handleOf (title product) @ js ''-1'')),
      (''Barcode'', Some []),
      (''Option1 Name'',
         Some (if length (sizes (variants product)) > 0 then js ''Size'' else [])),
      (''Option1 Value'', nth_or (sizes (variants product)) 0 (Some [])),
      (''Option2 Name'',
         Some (if length (colors (variants product)) > 0 then js ''Color'' else [])),
      (''Option2 Value'', nth_or (colors (variants product)) 0 (Some [])),
      (''Option3 Name'', Some []),
      (''Option3 Value'', Some []),
      (''Price'', Some (price product)),
      (''Inventory policy'', Some (js ''deny'')),
      (''Inventory quantity'', Some (js ''100'')),
      (''Requires shipping'', Some (js ''TRUE'')),
      (''Weight'', Some (js ''500'')),
      (''Weight unit'', Some (js ''g'')),
      (''Image Src'', nth_or (images product) 0 (Some [])),
      (''Image Position'', Some (js ''1'')),
      (''Image alt text'', Some (title product)),
      (''Variant Image'', Some []),
      (''SEO Title'', Some (title product)),
      (''SEO Description'', Some (seoDescription (attributes product)))]"

text \<open>\<open>mainRecord[key]\<close>: the property's value, \<open>undefined\<close> when the key is missing.\<close>

definition getProp :: "csv_record \<Rightarrow> string \<Rightarrow> jsstring option" where
  "getProp r key = (case map_of r key of Some v \<Rightarrow> v | None \<Rightarrow> None)"

text \<open>The record pushed for the size at index \<open>i\<close>, where \<open>1 \<le> i < sizes.length\<close>.\<close>

definition sizeRecord :: "Product \<Rightarrow> nat \<Rightarrow> csv_record" where
  "sizeRecord product i =
     [(''Handle'', Some (handleOf (title product))),
      (''Title'', Some []),
      (''Body (HTML)'', getProp (mainRecord product) ''Body (HTML)''),
      (''Vendor'', getProp (mainRecord product) ''Vendor''),
      (''Product Category'', getProp (mainRecord product) ''Product Category''),
      (''Type'', getProp (mainRecord product) ''Type''),
      (''Tags'', getProp (mainRecord product) ''Tags''),
      (''Published'', getProp (mainRecord product) ''Published''),
      (''Status'', getProp (mainRecord product) ''Status''),
      (''Option1 Name'', Some (js ''Size'')),
      (''Option1 Value'', Some (sizes (variants product) ! i)),
      (''Option2 Name'', getProp (mainRecord product) ''Option2 Name''),
      (''Option2 Value'', getProp (mainRecord product) ''Option2 Value''),
      (''Option3 Name'', Some []),
      (''Option3 Value'', Some []),
      (''SKU'', Some (handleOf (title product) @ js ''-size-'' @ toStringNat i)),
      (''Price'', Some (price product)),
      (''Inventory policy'', Some (js ''deny'')),
      (''Inventory quantity'', Some (js ''100'')),
      (''Requires shipping'', Some (js ''TRUE'')),
      (''Weight'', getProp (mainRecord product) ''Weight''),
      (''Weight unit'', getProp (mainRecord product) ''Weight unit'')]"

text \<open>
  The record pushed for the color at index \<open>i\<close>, where \<open>1 \<le> i < colors.length\<close>;
  \<open>variantImage\<close> is \<open>product.images[i] || product.images[0]\<close>.
\<close>

definition variantImage :: "Product \<Rightarrow> nat \<Rightarrow> jsstring option" where
  "variantImage product i =
     nth_or (images product) i
       (if 0 < length (images product) then Some (images product ! 0) else None)"

definition colorRecord :: "Product \<Rightarrow> nat \<Rightarrow> csv_record" where
  "colorRecord product i =
     [(''Handle'', Some (handleOf (title product))),
      (''Title'', Some []),
      (''Body (HTML)'', getProp (mainRecord product) ''Body (HTML)''),
      (''Vendor'', getProp (mainRecord product) ''Vendor''),
      (''Product Category'', getProp (mainRecord product) ''Product Category''),
      (''Type'', getProp (mainRecord product) ''Type''),
      (''Tags'', getProp (mainRecord product) ''Tags''),
      (''Published'', getProp (mainRecord product) ''Published''),
      (''Status'', getProp (mainRecord product) ''Status''),
      (''Option1 Name'', getProp (mainRecord product) ''Option1 Name''),
      (''Option1 Value'', getProp (mainRecord product) ''Option1 Value''),
      (''Option2 Name'', Some (js ''Color'')),
      (''Option2 Value'', Some (colors (variants product) ! i)),
      (''Option3 Name'', Some []),
      (''Option3 Value'', Some []),
      (''SKU'', Some (handleOf (title product) @ js ''-color-'' @ toStringNat i)),
      (''Price'', Some (price product)),
      (''Inventory policy'', Some (js ''deny'')),
      (''Inventory quantity'', Some (js ''100'')),
      (''Requires shipping'', Some (js ''TRUE'')),
      (''Weight'', getProp (mainRecord product) ''Weight''),
      (''Weight unit'', getProp (mainRecord product) ''Weight unit''),
      (''Image Src'', variantImage product i),
      (''Image Position'', Some (toStringNat (i + 1))),
      (''Variant Image'', variantImage product i)]"

text \<open>
  The records in the order they are pushed: the main record, one per size from index 1 on,
  one per color from index 1 on.
\<close>

definition exportRecords :: "Product \<Rightarrow> csv_record list" where
  "exportRecords product =
     [mainRecord product]
     @ (if length (sizes (variants product)) > 0
        then map (sizeRecord product) [1 ..< length (sizes (variants product))] else [])
     @ (if length (colors (variants product)) > 0
        then map (colorRecord product) [1 ..< length (colors (variants product))] else [])"

text \<open>The columns the CSV writer is configured with, in order.\<close>

definition csvHeader :: "string list" where
  "csvHeader =
     [''Title'', ''Handle'', ''Body (HTML)'', ''Vendor'', ''Product Category'', ''Type'', ''Tags'',
      ''Published'', ''Status'', ''Option1 Name'', ''Option1 Value'', ''Option2 Name'',
      ''Option2 Value'', ''Option3 Name'', ''Option3 Value'', ''SKU'', ''Price'',
      ''Inventory policy'', ''Inventory quantity'', ''Requires shipping'', ''Weight'',
      ''Weight unit'', ''Image Src'', ''Image Position'', ''Image alt text'', ''Variant Image'',
      ''SEO Title'', ''SEO Description'']"

text \<open>
  The value the CSV writer puts in a column of a row: the record's property, and the
  empty string when the property is missing or \<open>undefined\<close>.
\<close>

definition fieldValue :: "csv_record \<Rightarrow> string \<Rightarrow> jsstring" where
  "fieldValue r column = (case getProp r column of Some v \<Rightarrow> v | None \<Rightarrow> [])"

definition exportToShopify :: "Product \<Rightarrow> jsstring list list" where
  "exportToShopify product =
     map (\<lambda>r. map (fieldValue r) csvHeader) (exportRecords product)"


section \<open>Concrete inputs\<close>

definition Erkek_Giyim :: jsstring where "Erkek_Giyim = js ''Erkek Giyim''"
definition Tisort :: jsstring where "Tisort = js ''Ti'' @ [0x15F, 0xF6] @ js ''rt''"

text \<open>The page on which every query comes back empty.\<close>

definition emptyPage :: page where
  "emptyPage =
     \<lparr>ldScripts = [], texts = (\<lambda>selector. []), srcs = (\<lambda>selector. []), attrContainers = [],
      attrElements = (\<lambda>selector. []), specialValues = (\<lambda>alt. []), attrGroups = []\<rparr>"

definition emptySchema :: ld_schema where
  "emptySchema =
     \<lparr>ld_type = None, ld_name = None, ld_description = None, ld_offers_price = None,
      ld_brand_name = None, ld_manufacturer = None, ld_image_contentUrl = NoImage,
      ld_hasVariant = None, ld_additionalProperty = None, ld_breadcrumb = None\<rparr>"

text \<open>
  A page whose first size selector matches one element, with a concatenated size range as
  its text, and whose second size selector matches two elements.
\<close>

definition compositeFirstPage :: page where
  "compositeFirstPage =
     emptyPage\<lparr>texts := (\<lambda>selector.
        if selector = ''.sp-itm:not(.so)'' then [js ''XSSMLXL'']
        else if selector = ''.variant-list-item:not(.disabled)'' then [js ''S'', js ''M'']
        else [])\<rparr>"

text \<open>A product with one size, two colors and two images, the second image an empty string.\<close>

definition emptyImageProduct :: Product where
  "emptyImageProduct =
     \<lparr>url = js ''https://www.trendyol.com/x/y-p-1'', title = js ''Basic Shirt'',
      description = js ''A shirt'', price = js ''115.00'', basePrice = js ''100'',
      images = [js ''a.jpg'', []],
      variants = \<lparr>sizes = [js ''S''], colors = [js ''red'', js ''blue'']\<rparr>,
      attributes = [], categories = [js ''Giyim''], tags = [js ''Giyim''], brand = None,
      product_id = 1\<rparr>"

text \<open>A product with two sizes, two colors and three images.\<close>

definition twoByTwoProduct :: Product where
  "twoByTwoProduct =
     \<lparr>url = js ''https://www.trendyol.com/x/y-p-2'', title = js ''Basic Shirt'',
      description = js ''A shirt'', price = js ''115.00'', basePrice = js ''100'',
      images = [js ''a.jpg'', js ''b.jpg'', js ''c.jpg''],
      variants = \<lparr>sizes = [js ''S'', js ''M''], colors = [js ''red'', js ''blue'']\<rparr>,
      attributes = [(Renk, js ''red'')], categories = [js ''Giyim''], tags = [js ''Giyim''],
      brand = Some (js ''Mavi''), product_id = 2\<rparr>"


text \<open>
  A page whose JSON-LD block lists the property Renk with the text "Mavi", and whose
  attribute table has a row with the label Renk and the value "Siyah".
\<close>

definition renkSchema :: ld_schema where
  "renkSchema =
     emptySchema\<lparr>ld_additionalProperty :=
        Some [\<lparr>prop_name = Some Renk, prop_unitText = Some (js ''Mavi'')\<rparr>]\<rparr>"

definition renkTwicePage :: page where
  "renkTwicePage =
     emptyPage\<lparr>ldScripts := [Json renkSchema], attrContainers := [[(Renk, js ''Siyah'')]]\<rparr>"

text \<open>The same JSON-LD block, and a featured-attributes group with the item Renk: "Beyaz".\<close>

definition renkGroupPage :: page where
  "renkGroupPage =
     emptyPage\<lparr>ldScripts := [Json renkSchema], attrGroups := [[(Renk, js ''Beyaz'')]]\<rparr>"


text \<open>A URL parser that knows two strings: a product URL of the shop and a foreign URL.\<close>

definition shopUrl :: jsstring where
  "shopUrl = js ''https://www.trendyol.com/mavi/basic-shirt-p-123456''"

definition foreignUrl :: jsstring where
  "foreignUrl = js ''https://example.com/basic-shirt-p-123456''"

definition exampleParser :: url_parser where
  "exampleParser u =
     (if u = shopUrl then Some (js ''www.trendyol.com'', js ''/mavi/basic-shirt-p-123456'')
      else if u = foreignUrl then Some (js ''example.com'', js ''/basic-shirt-p-123456'')
      else None)"

text \<open>
  A page whose only content is a JSON-LD block with type, name, description, the price
  100 and one image.
\<close>

definition shirtSchema :: ld_schema where
  "shirtSchema =
     emptySchema\<lparr>ld_type := Some (js ''Product''), ld_name := Some (js ''Mavi Basic Shirt''),
       ld_description := Some (js ''A shirt''), ld_offers_price := Some (js ''100''),
       ld_image_contentUrl := OneImage (js ''a.jpg'')\<rparr>"

definition shirtPage :: page where
  "shirtPage = emptyPage\<lparr>ldScripts := [Json shirtSchema]\<rparr>"

definition shirtWeb :: "jsstring \<Rightarrow> fetch_result" where
  "shirtWeb u = Response True 200 (js ''OK'') shirtPage"

definition downWeb :: "jsstring \<Rightarrow> fetch_result" where
  "downWeb u = NetworkFailure"

definition freshServer :: server where
  "freshServer = \<lparr>storage = newStorage, fetched = []\<rparr>"

definition freshRuntime :: runtime where
  "freshRuntime = \<lparr>srv = freshServer, jobs = []\<rparr>"

definition shirtProduct :: Product where
  "shirtProduct =
     \<lparr>url = shopUrl, title = js ''Mavi Basic Shirt'', description = js ''A shirt'',
      price = js ''115.00'', basePrice = js ''100'', images = [js ''a.jpg''],
      variants = \<lparr>sizes = [], colors = []\<rparr>, attributes = [], categories = [js ''Giyim''],
      tags = [js ''Giyim''], brand = Some (js ''Mavi''), product_id = 1\<rparr>"

text \<open>
  One request for the shop URL handled alone on a fresh server, and the server after it.
\<close>

definition firstScrape :: "event list" where
  "firstScrape =
     [Arrive shirtWeb (Some shopUrl), Continue 0, Continue 0, Continue 0, Continue 0,
      Continue 0, Continue 0, Continue 0, Continue 0]"

definition scrapedOnce :: runtime where
  "scrapedOnce =
     \<lparr>srv = \<lparr>storage = \<lparr>products = [shopUrl \<mapsto> shirtProduct], currentId = 2\<rparr>,
             fetched = [shopUrl]\<rparr>,
      jobs = [\<lparr>network = shirtWeb, request = Some shopUrl,
               stage = Finished (ProductReply shirtProduct)\<rparr>]\<rparr>"

text \<open>
  Three requests that arrive after it, two for the shop URL while the network is down and
  one for the foreign URL; the last two are taken one step further.
\<close>

definition laterRequests :: "event list" where
  "laterRequests =
     [Arrive downWeb (Some shopUrl), Arrive shirtWeb (Some foreignUrl),
      Arrive downWeb (Some shopUrl), Continue 3, Continue 2]"

text \<open>
  Two requests for the shop URL on a fresh server, the second arriving while the first
  waits for its response, each then taken to its answer; and a third one after both.
\<close>

definition overlappingRequests :: "event list" where
  "overlappingRequests =
     [Arrive shirtWeb (Some shopUrl), Continue 0, Arrive shirtWeb (Some shopUrl), Continue 1,
      Continue 0, Continue 0, Continue 0, Continue 0, Continue 0, Continue 0, Continue 0,
      Continue 1, Continue 1, Continue 1, Continue 1, Continue 1, Continue 1, Continue 1,
      Arrive downWeb (Some shopUrl), Continue 2]"

text \<open>Pages whose price element reads "1.3 TL", and "Fiyat yok" (no number).\<close>

definition tiePricePage :: page where
  "tiePricePage =
     emptyPage\<lparr>texts := (\<lambda>selector. if selector = priceSelector then [js ''1.3 TL''] else [])\<rparr>"

definition noNumberPricePage :: page where
  "noNumberPricePage =
     emptyPage\<lparr>texts := (\<lambda>selector. if selector = priceSelector then [js ''Fiyat yok''] else [])\<rparr>"


text \<open>The same page, except for a size under the fourth size selector.\<close>

definition compositeFirstPageXL :: page where
  "compositeFirstPageXL =
     emptyPage\<lparr>texts := (\<lambda>selector.
        if selector = ''.sp-itm:not(.so)'' then [js ''XSSMLXL'']
        else if selector = ''.variant-list-item:not(.disabled)'' then [js ''S'', js ''M'']
        else if selector = ''.v2-size-value'' then [js ''XL'']
        else [])\<rparr>"

text \<open>A page whose only content is a JSON-LD block without a price.\<close>

definition noOfferPage :: page where
  "noOfferPage = emptyPage\<lparr>ldScripts := [Json emptySchema]\<rparr>"


section \<open>Properties of the category resolver\<close>

lemma find_weaken:
  "find P xs = None \<Longrightarrow> (\<And>x. Q x \<Longrightarrow> P x) \<Longrightarrow> find Q xs = None"
  by (auto simp: find_None_iff)

text \<open>
  Whenever the first loop finds nothing, the second loop finds nothing either and no
  category contains "erkek" or the word for women: the second loop and the gender
  fallback never decide the result.
\<close>

lemma exactLoop_None_partialLoop_None:
  "exactLoop cs = None \<Longrightarrow> partialLoop cs = None"
proof (induction cs)
  case Nil
  then show ?case by simp
next
  case (Cons c cs)
  from Cons.prems
  have none: "find (\<lambda>(key, config). c = key \<or> str_includes c key) categoryMapping = None"
    and rest: "exactLoop cs = None"
    by (auto split: option.splits)
  from none have "find (\<lambda>(key, config). str_includes c key) categoryMapping = None"
    by (rule find_weaken) auto
  with Cons.IH [OF rest] show ?case by simp
qed

lemma exactLoop_None_no_gender:
  "exactLoop cs = None \<Longrightarrow>
   \<not> list_ex (\<lambda>c. str_includes c (js ''erkek'')) cs \<and> \<not> list_ex (\<lambda>c. str_includes c key_kadin) cs"
proof (induction cs)
  case Nil
  then show ?case by simp
next
  case (Cons c cs)
  from Cons.prems
  have none: "find (\<lambda>(key, config). c = key \<or> str_includes c key) categoryMapping = None"
    and rest: "exactLoop cs = None"
    by (auto split: option.splits)
  from none
  have "\<forall>entry \<in> set categoryMapping. \<not> str_includes c (fst entry)"
    by (auto simp: find_None_iff)
  moreover have "(key_erkek, config_erkek) \<in> set categoryMapping"
    and "(key_kadin, config_kadin) \<in> set categoryMapping"
    by (simp_all add: categoryMapping_def)
  ultimately have "\<not> str_includes c key_erkek \<and> \<not> str_includes c key_kadin"
    by fastforce
  with Cons.IH [OF rest] show ?case
    by (simp add: key_erkek_def)
qed

text \<open>
  C1. For the category list ["Erkek Giyim", "Tisort"] (the second spelled with s-cedilla
  and o-diaeresis) the resolver does not return the shirt mapping: the first loop tests containment as well as equality, so the first
  category "erkek giyim" already matches the key "erkek" and the men's clothing entry is
  returned before the second category is looked at.
\<close>

theorem getCategoryConfig_erkek_giyim_tisort:
  "getCategoryConfig [Erkek_Giyim, Tisort] = config_erkek \<and>
   getCategoryConfig [Erkek_Giyim, Tisort] \<noteq> config_tisort \<and>
   getCategoryConfig [Tisort] = config_tisort"
  by (simp add: getCategoryConfig_def Erkek_Giyim_def Tisort_def js_def toLowerCase_def
      lowerUnit_def trim_def isWhiteSpace_def categoryMapping_def key_erkek_def key_kadin_def
      key_tisort_def key_cuzdan_def key_kartlik_def key_sneaker_def config_erkek_def
      config_tisort_def)

section \<open>Properties of the size extractor\<close>

lemma sizeLoop_step:
  "sizeLoop pg (selector # rest) =
     (if uniqueSizes (trimmedTexts pg selector) \<noteq> [] then uniqueSizes (trimmedTexts pg selector)
      else sizeLoop pg rest)"
  by (auto simp: Let_def uniqueSizes_def parseSizes_def uniq_def)

lemma sizeLoop_first:
  "\<forall>s \<in> set pre. uniqueSizes (trimmedTexts pg s) = [] \<Longrightarrow>
   uniqueSizes (trimmedTexts pg selector) \<noteq> [] \<Longrightarrow>
   sizeLoop pg (pre @ selector # post) = uniqueSizes (trimmedTexts pg selector)"
  by (induction pre) (simp_all only: sizeLoop_step append_Cons append_Nil list.set, auto)

lemma sizeLoop_nth:
  assumes "k < length sels"
    and "\<forall>j<k. uniqueSizes (trimmedTexts pg (sels ! j)) = []"
    and "uniqueSizes (trimmedTexts pg (sels ! k)) \<noteq> []"
  shows "sizeLoop pg sels = uniqueSizes (trimmedTexts pg (sels ! k))"
proof -
  have split: "sels = take k sels @ sels ! k # drop (Suc k) sels"
    using assms(1) by (simp add: id_take_nth_drop)
  have "\<forall>s \<in> set (take k sels). uniqueSizes (trimmedTexts pg s) = []"
    using assms(1,2) by (auto simp: in_set_conv_nth)
  from sizeLoop_first [OF this assms(3), of "drop (Suc k) sels"] split
  show ?thesis by simp
qed

lemma trimmedTexts_cong:
  "texts pg' selector = texts pg selector \<Longrightarrow> trimmedTexts pg' selector = trimmedTexts pg selector"
  by (simp add: trimmedTexts_def)

text \<open>
  C5, as the code has it. The size extractor takes the first of the four selector
  strategies, in their fixed order, whose trimmed non-empty texts leave at least one size
  after the composite tokens are dropped; a strategy whose texts are all dropped is passed
  over like one that matches nothing. The sizes are those of that one strategy (nothing is
  merged across selector strategies), and no later selector is consulted: a page that
  agrees with this one up to the winning selector gives the same sizes.
\<close>

theorem sizes_from_first_surviving_selector:
  assumes "k < length sizeSelectors"
    and "\<forall>j<k. uniqueSizes (trimmedTexts pg (sizeSelectors ! j)) = []"
    and "uniqueSizes (trimmedTexts pg (sizeSelectors ! k)) \<noteq> []"
  shows "sizeLoop pg sizeSelectors = uniqueSizes (trimmedTexts pg (sizeSelectors ! k)) \<and>
         (ld_hasVariant schema = None \<longrightarrow>
            sizes (scrapeVariants pg schema) =
              uniqueSizes (trimmedTexts pg (sizeSelectors ! k))) \<and>
         (\<forall>pg'. (\<forall>j\<le>k. texts pg' (sizeSelectors ! j) = texts pg (sizeSelectors ! j)) \<longrightarrow>
            sizeLoop pg' sizeSelectors = sizeLoop pg sizeSelectors)"
proof -
  have here: "sizeLoop pg sizeSelectors = uniqueSizes (trimmedTexts pg (sizeSelectors ! k))"
    by (rule sizeLoop_nth [OF assms])
  have there: "sizeLoop pg' sizeSelectors = sizeLoop pg sizeSelectors"
    if agree: "\<forall>j\<le>k. texts pg' (sizeSelectors ! j) = texts pg (sizeSelectors ! j)" for pg'
  proof -
    have same: "trimmedTexts pg' (sizeSelectors ! j) = trimmedTexts pg (sizeSelectors ! j)"
      if "j \<le> k" for j
      by (rule trimmedTexts_cong) (use agree that in blast)
    have "\<forall>j<k. uniqueSizes (trimmedTexts pg' (sizeSelectors ! j)) = []"
      using assms(2) same by (metis less_imp_le)
    moreover have "uniqueSizes (trimmedTexts pg' (sizeSelectors ! k)) \<noteq> []"
      using assms(3) same [of k] by (metis order_refl)
    ultimately
    have "sizeLoop pg' sizeSelectors = uniqueSizes (trimmedTexts pg' (sizeSelectors ! k))"
      using assms(1) by (intro sizeLoop_nth)
    also have "\<dots> = uniqueSizes (trimmedTexts pg (sizeSelectors ! k))"
      using same [of k] by simp
    finally show ?thesis
      using here by simp
  qed
  have supplement: "sizes (scrapeVariants pg schema) = sizeLoop pg sizeSelectors"
    if "ld_hasVariant schema = None"
    using that by (simp add: scrapeVariants_def)
  show ?thesis
  proof (intro conjI allI impI)
    show "sizeLoop pg sizeSelectors = uniqueSizes (trimmedTexts pg (sizeSelectors ! k))"
      by (rule here)
  next
    assume "ld_hasVariant schema = None"
    then show "sizes (scrapeVariants pg schema) =
        uniqueSizes (trimmedTexts pg (sizeSelectors ! k))"
      using here by (simp add: supplement)
  next
    fix pg' :: page
    assume "\<forall>j\<le>k. texts pg' (sizeSelectors ! j) = texts pg (sizeSelectors ! j)"
    then show "sizeLoop pg' sizeSelectors = sizeLoop pg sizeSelectors"
      by (rule there)
  qed
qed

theorem sizes_from_first_surviving_selector_witness:
  "sizes (scrapeVariants compositeFirstPage emptySchema) = [js ''S'', js ''M''] \<and>
   sizeLoop compositeFirstPageXL sizeSelectors = sizeLoop compositeFirstPage sizeSelectors"
proof -
  have h1: "1 < length sizeSelectors"
    by (simp add: sizeSelectors_def)
  have h2: "\<forall>j<1. uniqueSizes (trimmedTexts compositeFirstPage (sizeSelectors ! j)) = []"
    by (simp add: sizeSelectors_def compositeFirstPage_def emptyPage_def trimmedTexts_def
        trim_def isWhiteSpace_def js_def uniqueSizes_def parseSizes_def isComposite_def uniq_def)
  have h3: "uniqueSizes (trimmedTexts compositeFirstPage (sizeSelectors ! 1)) \<noteq> []"
    by (simp add: sizeSelectors_def compositeFirstPage_def emptyPage_def trimmedTexts_def
        trim_def isWhiteSpace_def js_def uniqueSizes_def parseSizes_def isComposite_def uniq_def
        sizeRank_def sizeOrder_def)
  have second: "uniqueSizes (trimmedTexts compositeFirstPage (sizeSelectors ! 1)) =
      [js ''S'', js ''M'']"
    by (simp add: sizeSelectors_def compositeFirstPage_def emptyPage_def trimmedTexts_def
        trim_def isWhiteSpace_def js_def uniqueSizes_def parseSizes_def isComposite_def uniq_def
        sizeRank_def sizeOrder_def)
  have none: "ld_hasVariant emptySchema = None"
    by (simp add: emptySchema_def)
  have agree: "\<forall>j\<le>1. texts compositeFirstPageXL (sizeSelectors ! j) =
      texts compositeFirstPage (sizeSelectors ! j)"
    by (simp add: sizeSelectors_def compositeFirstPage_def compositeFirstPageXL_def
        emptyPage_def le_Suc_eq)
  note main = sizes_from_first_surviving_selector [OF h1 h2 h3, of emptySchema]
  from main none second
  have "sizes (scrapeVariants compositeFirstPage emptySchema) = [js ''S'', js ''M'']"
    by simp
  moreover from main agree
  have "sizeLoop compositeFirstPageXL sizeSelectors = sizeLoop compositeFirstPage sizeSelectors"
    by blast
  ultimately show ?thesis ..
qed

text \<open>
  C5, as the claim states it, fails. On this page the first selector yields a non-empty
  text node, the concatenated range "XSSMLXL"; it is dropped as a composite token, the
  loop goes on to the second selector, and the sizes are those of the second selector,
  not those the first selector gives (none).
\<close>

theorem sizes_first_nonempty_selector_counterexample:
  "trimmedTexts compositeFirstPage (sizeSelectors ! 0) = [js ''XSSMLXL''] \<and>
   uniqueSizes (trimmedTexts compositeFirstPage (sizeSelectors ! 0)) = [] \<and>
   sizes (scrapeVariants compositeFirstPage emptySchema) = [js ''S'', js ''M''] \<and>
   sizes (scrapeVariants compositeFirstPage emptySchema) =
     uniqueSizes (trimmedTexts compositeFirstPage (sizeSelectors ! 1))"
  by (simp add: scrapeVariants_def emptySchema_def sizeSelectors_def compositeFirstPage_def
      emptyPage_def trimmedTexts_def trim_def isWhiteSpace_def js_def uniqueSizes_def
      parseSizes_def isComposite_def uniq_def sizeRank_def sizeOrder_def)

text \<open>
  C6. On the raw tokens ["S", "M", "L", "XSSMLXL"] the post-processing drops the composite
  token, which contains "XS", "S" and "M" at once, and does not split it; after
  deduplication and the sort by the canonical order the result is exactly ["S", "M", "L"].
\<close>

theorem size_pipeline_drops_composite_token:
  "isComposite (js ''XSSMLXL'') \<and>
   parseSizes [js ''S'', js ''M'', js ''L'', js ''XSSMLXL''] = [js ''S'', js ''M'', js ''L''] \<and>
   uniqueSizes [js ''S'', js ''M'', js ''L'', js ''XSSMLXL''] = [js ''S'', js ''M'', js ''L'']"
  by (simp add: uniqueSizes_def parseSizes_def isComposite_def uniq_def js_def sizeRank_def
      sizeOrder_def)

section \<open>Properties of the CSV exporter\<close>

lemma nth_first_block:
  "1 \<le> j \<Longrightarrow> j < n \<Longrightarrow> (x # map f [1 ..< n] @ ys) ! j = f j"
  by (auto simp: nth_append nth_Cons')

lemma nth_second_block:
  "0 < n \<Longrightarrow> 1 \<le> i \<Longrightarrow> i < m \<Longrightarrow>
   (x # map f [1 ..< n] @ map g [1 ..< m]) ! (n + i - 1) = g i"
  by (auto simp: nth_append nth_Cons')

lemma exportRecords_size_row:
  "1 \<le> j \<Longrightarrow> j < length (sizes (variants p)) \<Longrightarrow> exportRecords p ! j = sizeRecord p j"
  using nth_first_block [of j "length (sizes (variants p))" "mainRecord p" "sizeRecord p"]
  by (auto simp: exportRecords_def)

lemma exportRecords_color_row:
  "0 < length (sizes (variants p)) \<Longrightarrow> 1 \<le> i \<Longrightarrow> i < length (colors (variants p)) \<Longrightarrow>
   exportRecords p ! (length (sizes (variants p)) + i - 1) = colorRecord p i"
  using nth_second_block [of "length (sizes (variants p))" i "length (colors (variants p))"
      "mainRecord p" "sizeRecord p" "colorRecord p"]
  by (auto simp: exportRecords_def)

lemma length_exportRecords:
  "length (exportRecords p) =
     1 + (length (sizes (variants p)) - 1) + (length (colors (variants p)) - 1)"
  by (simp add: exportRecords_def)

lemma colorRecord_fields:
  "getProp (colorRecord p i) ''Option1 Name'' = getProp (mainRecord p) ''Option1 Name''"
  "getProp (colorRecord p i) ''Option1 Value'' = getProp (mainRecord p) ''Option1 Value''"
  "getProp (colorRecord p i) ''Image Src'' = variantImage p i"
  "getProp (colorRecord p i) ''Variant Image'' = variantImage p i"
  "getProp (colorRecord p i) ''Image Position'' = Some (toStringNat (i + 1))"
  by (simp_all add: colorRecord_def getProp_def)

lemma mainRecord_option1:
  "getProp (mainRecord p) ''Option1 Name'' =
     Some (if length (sizes (variants p)) > 0 then js ''Size'' else [])"
  "getProp (mainRecord p) ''Option1 Value'' = nth_or (sizes (variants p)) 0 (Some [])"
  by (simp_all add: mainRecord_def getProp_def)

lemma sizeRecord_no_image:
  "map_of (sizeRecord p j) ''Image Src'' = None"
  "map_of (sizeRecord p j) ''Image Position'' = None"
  "map_of (sizeRecord p j) ''Image alt text'' = None"
  "map_of (sizeRecord p j) ''Variant Image'' = None"
  by (simp_all add: sizeRecord_def)

text \<open>
  C7. A product with exactly 2 sizes, 2 colors and 3 images is exported as exactly 3 rows:
  the main row, the row of the second size and the row of the second color, in this order;
  the Image Position of the color row is "2".
\<close>

theorem export_two_sizes_two_colors_three_rows:
  assumes "length (sizes (variants p)) = 2"
    and "length (colors (variants p)) = 2"
    and "length (images p) = 3"
  shows "exportRecords p = [mainRecord p, sizeRecord p 1, colorRecord p 1] \<and>
         length (exportToShopify p) = 3 \<and>
         fieldValue (exportRecords p ! 2) ''Image Position'' = js ''2''"
proof -
  have one: "[Suc 0 ..< 2] = [Suc 0]"
    by (simp add: upt_rec)
  have rows: "exportRecords p = [mainRecord p, sizeRecord p 1, colorRecord p 1]"
    using assms(1,2) by (simp add: exportRecords_def one)
  have "toStringNat (1 + 1) = js ''2''"
    by (simp add: toStringNat.simps js_def)
  then have "fieldValue (colorRecord p 1) ''Image Position'' = js ''2''"
    by (simp add: fieldValue_def colorRecord_fields)
  with rows show ?thesis
    by (simp add: exportToShopify_def)
qed

theorem export_two_sizes_two_colors_three_rows_witness:
  "exportRecords twoByTwoProduct =
     [mainRecord twoByTwoProduct, sizeRecord twoByTwoProduct 1, colorRecord twoByTwoProduct 1] \<and>
   length (exportToShopify twoByTwoProduct) = 3 \<and>
   fieldValue (exportRecords twoByTwoProduct ! 2) ''Image Position'' = js ''2''"
proof -
  have h1: "length (sizes (variants twoByTwoProduct)) = 2"
    by (simp add: twoByTwoProduct_def)
  have h2: "length (colors (variants twoByTwoProduct)) = 2"
    by (simp add: twoByTwoProduct_def)
  have h3: "length (images twoByTwoProduct) = 3"
    by (simp add: twoByTwoProduct_def)
  show ?thesis
    by (rule export_two_sizes_two_colors_three_rows [OF h1 h2 h3])
qed

text \<open>
  C10, as the code has it. For a product with at least one size and more than one color,
  the row of each further color (index \<open>i\<close> from 1 on, found after the main row and the
  rows of the further sizes) carries the main row's Option1 Name, which is "Size", and
  the main row's Option1 Value, which is the first size, so that every further color is
  paired with the first size only. Its Image Src and its Variant Image are the same value:
  the image at index \<open>i\<close> when there is one and it is not the empty string, otherwise the
  first image, and nothing when the product has no image. The rows of the further sizes
  have none of the four image properties, and the columns are written empty.
\<close>

theorem color_rows_pair_first_size_and_indexed_image:
  assumes "0 < length (sizes (variants p))"
    and "1 < length (colors (variants p))"
    and "1 \<le> i" and "i < length (colors (variants p))"
  shows "exportRecords p ! (length (sizes (variants p)) + i - 1) = colorRecord p i \<and>
         fieldValue (colorRecord p i) ''Option1 Name'' = js ''Size'' \<and>
         fieldValue (colorRecord p i) ''Option1 Name'' = fieldValue (mainRecord p) ''Option1 Name'' \<and>
         fieldValue (colorRecord p i) ''Option1 Value'' = sizes (variants p) ! 0 \<and>
         fieldValue (colorRecord p i) ''Option1 Value'' = fieldValue (mainRecord p) ''Option1 Value'' \<and>
         fieldValue (colorRecord p i) ''Image Src'' =
           (if i < length (images p) \<and> images p ! i \<noteq> [] then images p ! i
            else if 0 < length (images p) then images p ! 0 else []) \<and>
         fieldValue (colorRecord p i) ''Variant Image'' = fieldValue (colorRecord p i) ''Image Src'' \<and>
         (\<forall>j. 1 \<le> j \<and> j < length (sizes (variants p)) \<longrightarrow>
            exportRecords p ! j = sizeRecord p j \<and>
            map_of (sizeRecord p j) ''Image Src'' = None \<and>
            map_of (sizeRecord p j) ''Image Position'' = None \<and>
            map_of (sizeRecord p j) ''Image alt text'' = None \<and>
            map_of (sizeRecord p j) ''Variant Image'' = None \<and>
            fieldValue (sizeRecord p j) ''Image Src'' = [] \<and>
            fieldValue (sizeRecord p j) ''Image Position'' = [] \<and>
            fieldValue (sizeRecord p j) ''Image alt text'' = [] \<and>
            fieldValue (sizeRecord p j) ''Variant Image'' = [])"
proof -
  have row: "exportRecords p ! (length (sizes (variants p)) + i - 1) = colorRecord p i"
    using assms(1,3,4) by (rule exportRecords_color_row)
  have name: "fieldValue (colorRecord p i) ''Option1 Name'' = js ''Size''"
    using assms(1) by (simp add: fieldValue_def colorRecord_fields mainRecord_option1)
  have name': "fieldValue (mainRecord p) ''Option1 Name'' = js ''Size''"
    using assms(1) by (simp add: fieldValue_def mainRecord_option1)
  have val: "fieldValue (colorRecord p i) ''Option1 Value'' = sizes (variants p) ! 0"
    using assms(1) by (simp add: fieldValue_def colorRecord_fields mainRecord_option1 nth_or_def)
  have val': "fieldValue (mainRecord p) ''Option1 Value'' = sizes (variants p) ! 0"
    using assms(1) by (simp add: fieldValue_def mainRecord_option1 nth_or_def)
  have img: "fieldValue (colorRecord p i) ''Image Src'' =
      (if i < length (images p) \<and> images p ! i \<noteq> [] then images p ! i
       else if 0 < length (images p) then images p ! 0 else [])"
    by (simp add: fieldValue_def colorRecord_fields variantImage_def nth_or_def)
  have vimg: "fieldValue (colorRecord p i) ''Variant Image'' = fieldValue (colorRecord p i) ''Image Src''"
    by (simp add: fieldValue_def colorRecord_fields)
  have srows: "exportRecords p ! j = sizeRecord p j" if "1 \<le> j" "j < length (sizes (variants p))" for j
    using that by (rule exportRecords_size_row)
  have empty: "fieldValue (sizeRecord p j) ''Image Src'' = []"
    "fieldValue (sizeRecord p j) ''Image Position'' = []"
    "fieldValue (sizeRecord p j) ''Image alt text'' = []"
    "fieldValue (sizeRecord p j) ''Variant Image'' = []" for j
    by (simp_all add: fieldValue_def getProp_def sizeRecord_no_image)
  show ?thesis
    using row name name' val val' img vimg srows empty
    by (simp add: sizeRecord_no_image)
qed

theorem color_rows_pair_first_size_and_indexed_image_witness:
  "exportRecords twoByTwoProduct ! 2 = colorRecord twoByTwoProduct 1 \<and>
   fieldValue (colorRecord twoByTwoProduct 1) ''Option1 Value'' = js ''S'' \<and>
   fieldValue (colorRecord twoByTwoProduct 1) ''Image Src'' = js ''b.jpg'' \<and>
   exportRecords twoByTwoProduct ! 1 = sizeRecord twoByTwoProduct 1 \<and>
   fieldValue (sizeRecord twoByTwoProduct 1) ''Image Src'' = []"
proof -
  have h1: "0 < length (sizes (variants twoByTwoProduct))"
    by (simp add: twoByTwoProduct_def)
  have h2: "1 < length (colors (variants twoByTwoProduct))"
    by (simp add: twoByTwoProduct_def)
  have h3: "(1::nat) \<le> 1"
    by simp
  have h4: "1 < length (colors (variants twoByTwoProduct))"
    by (simp add: twoByTwoProduct_def)
  have j: "(1::nat) \<le> 1 \<and> 1 < length (sizes (variants twoByTwoProduct))"
    by (simp add: twoByTwoProduct_def)
  have n: "length (sizes (variants twoByTwoProduct)) + 1 - 1 = 2"
    by (simp add: twoByTwoProduct_def)
  have s: "sizes (variants twoByTwoProduct) ! 0 = js ''S''"
    by (simp add: twoByTwoProduct_def)
  have im: "(if 1 < length (images twoByTwoProduct) \<and> images twoByTwoProduct ! 1 \<noteq> []
             then images twoByTwoProduct ! 1
             else if 0 < length (images twoByTwoProduct) then images twoByTwoProduct ! 0 else [])
            = js ''b.jpg''"
    by (simp add: twoByTwoProduct_def js_def)
  from color_rows_pair_first_size_and_indexed_image [OF h1 h2 h3 h4] j
  show ?thesis
    by (simp only: n s im)
qed

text \<open>
  C10, as the claim states it, fails where the image at the color's index is in range but
  is the empty string: the row then carries the first image, not the image at its index.
\<close>

theorem color_row_image_in_range_counterexample:
  "1 < length (images emptyImageProduct) \<and>
   images emptyImageProduct ! 1 = [] \<and>
   exportRecords emptyImageProduct ! 1 = colorRecord emptyImageProduct 1 \<and>
   fieldValue (exportRecords emptyImageProduct ! 1) ''Image Src'' = js ''a.jpg'' \<and>
   fieldValue (exportRecords emptyImageProduct ! 1) ''Image Src'' \<noteq> images emptyImageProduct ! 1"
proof -
  have row: "exportRecords emptyImageProduct ! 1 = colorRecord emptyImageProduct 1"
    by (simp add: exportRecords_def emptyImageProduct_def upt_rec)
  have "fieldValue (colorRecord emptyImageProduct 1) ''Image Src'' = js ''a.jpg''"
    by (simp add: fieldValue_def colorRecord_fields variantImage_def nth_or_def
        emptyImageProduct_def)
  with row show ?thesis
    by (simp add: emptyImageProduct_def js_def)
qed

section \<open>Properties of the attribute extractor\<close>

lemma map_of_assign:
  "map_of (assign a key val) k = (if k = key then Some val else map_of a k)"
  by (induction a key val rule: assign.induct) auto

lemma assignIfUnbound_keeps:
  "bound a k \<Longrightarrow> map_of (assignIfUnbound a label val) k = map_of a k"
  by (auto simp: assignIfUnbound_def map_of_assign split: option.splits)

lemma assignIfUnbound_bound:
  "bound a k \<Longrightarrow> bound (assignIfUnbound a label val) k"
  by (simp add: bound_def assignIfUnbound_keeps)

lemma fold_elements_keeps:
  "bound a k \<Longrightarrow>
   bound (foldl (\<lambda>acc' element. assignIfUnbound acc' (f element) (g element)) a es) k \<and>
   map_of (foldl (\<lambda>acc' element. assignIfUnbound acc' (f element) (g element)) a es) k =
     map_of a k"
proof (induction es arbitrary: a)
  case Nil
  then show ?case by simp
next
  case (Cons e es)
  from Cons.prems have "bound (assignIfUnbound a (f e) (g e)) k"
    by (rule assignIfUnbound_bound)
  from Cons.IH [OF this] Cons.prems show ?case
    by (simp add: assignIfUnbound_keeps)
qed

text \<open>The generic selectors never change a key that is already bound.\<close>

lemma fold_selectors_keeps:
  "bound a k \<Longrightarrow>
   bound (foldl (\<lambda>acc selector.
            foldl (\<lambda>acc' element. assignIfUnbound acc' (f element) (g element))
              acc (attrElements pg selector)) a sels) k \<and>
   map_of (foldl (\<lambda>acc selector.
            foldl (\<lambda>acc' element. assignIfUnbound acc' (f element) (g element))
              acc (attrElements pg selector)) a sels) k = map_of a k"
proof (induction sels arbitrary: a)
  case Nil
  then show ?case by simp
next
  case (Cons s sels)
  let ?a' = "foldl (\<lambda>acc' element. assignIfUnbound acc' (f element) (g element))
               a (attrElements pg s)"
  from fold_elements_keeps [OF Cons.prems, of f g "attrElements pg s"]
  have b: "bound ?a' k" and m: "map_of ?a' k = map_of a k"
    by simp_all
  from Cons.IH [OF b] m show ?case
    by simp
qed

lemma fromSelectors_keeps:
  "bound a k \<Longrightarrow> map_of (fromSelectors pg a) k = map_of a k"
  unfolding fromSelectors_def
  by (rule fold_selectors_keeps [THEN conjunct2])

text \<open>The canonical-name lookups assign to a name only when it is not bound.\<close>

lemma fold_values_other_key:
  "k \<noteq> key \<Longrightarrow>
   map_of (foldl (\<lambda>acc' valueText.
             if trim valueText \<noteq> [] then assign acc' key (trim valueText) else acc') a vs) k =
     map_of a k"
  by (induction vs arbitrary: a) (simp_all add: map_of_assign)

lemma fold_alternatives_other_key:
  "k \<noteq> key \<Longrightarrow>
   map_of (foldl (\<lambda>acc alt.
             foldl (\<lambda>acc' valueText.
                      if trim valueText \<noteq> [] then assign acc' key (trim valueText) else acc')
               acc (specialValues pg alt)) a alts) k =
     map_of a k"
  by (induction alts arbitrary: a) (simp_all add: fold_values_other_key)

lemma fromSpecial_keeps:
  assumes "bound a k"
  shows "map_of (fromSpecial pg a entry) k = map_of a k"
proof (cases entry)
  case (Pair key alternatives)
  show ?thesis
  proof (cases "bound a key")
    case True
    with Pair show ?thesis by (simp add: fromSpecial_def)
  next
    case False
    with assms have "k \<noteq> key" by auto
    with Pair False show ?thesis
      by (simp add: fromSpecial_def fold_alternatives_other_key)
  qed
qed

lemma fold_fromSpecial_keeps:
  "bound a k \<Longrightarrow> map_of (foldl (fromSpecial pg) a entries) k = map_of a k"
proof (induction entries arbitrary: a)
  case Nil
  then show ?case by simp
next
  case (Cons entry entries)
  have "bound (fromSpecial pg a entry) k"
    using Cons.prems by (simp add: bound_def fromSpecial_keeps)
  from Cons.IH [OF this] Cons.prems show ?case
    by (simp add: fromSpecial_keeps)
qed

lemma fromSpecials_keeps:
  "bound a k \<Longrightarrow> map_of (fromSpecials pg a) k = map_of a k"
  unfolding fromSpecials_def by (rule fold_fromSpecial_keeps)

text \<open>
  C2. The extractor does not keep the first value of a key through all later strategies.
  On the first page the JSON-LD block binds Renk to "Mavi" and the attribute table, which
  assigns without looking at the accumulated mapping, replaces it by "Siyah"; on the
  second page the grouped-attributes pattern, the last strategy, replaces it by "Beyaz".
  (The generic selectors and the canonical-name lookups do test the mapping first.)
\<close>

theorem scrapeProductAttributes_later_strategy_overwrites:
  "map_of (fromSchema renkTwicePage []) Renk = Some (js ''Mavi'') \<and>
   map_of (fromContainers renkTwicePage (fromSchema renkTwicePage [])) Renk = Some (js ''Siyah'') \<and>
   scrapeProductAttributes renkTwicePage = [(Renk, js ''Siyah'')] \<and>
   map_of (fromSpecials renkGroupPage (fromSelectors renkGroupPage
      (fromContainers renkGroupPage (fromSchema renkGroupPage [])))) Renk = Some (js ''Mavi'') \<and>
   scrapeProductAttributes renkGroupPage = [(Renk, js ''Beyaz'')]"
  by (simp add: scrapeProductAttributes_def fromGroups_def fromSpecials_def fromSpecial_def
      fromSelectors_def fromContainers_def fromSchema_def schemaProperties_def
      assignIfBoth_def bound_def specialAttributes_def attributeSelectors_def
      renkTwicePage_def renkGroupPage_def renkSchema_def emptySchema_def emptyPage_def
      Renk_def Materyal_def Kumas_def js_def trim_def isWhiteSpace_def)

section \<open>Evaluating the number model\<close>

lemma floor_rat_numeral [simp]:
  "\<lfloor>numeral a / numeral b :: rat\<rfloor> = numeral a div numeral b"
  by (metis floor_divide_of_int_eq of_int_numeral)

lemma ceiling_rat_numeral [simp]:
  "\<lceil>numeral a / numeral b :: rat\<rceil> = - ((- numeral a) div numeral b)"
  by (metis ceiling_divide_eq_div of_int_numeral)

lemma bitlen_numeral [simp]:
  "bitlen 1 = 1"
  "bitlen (numeral Num.One) = 1"
  "bitlen (numeral (Num.Bit0 n)) = bitlen (numeral n) + 1"
  "bitlen (numeral (Num.Bit1 n)) = bitlen (numeral n) + 1"
  by (simp_all add: compute_bitlen [of 1] compute_bitlen [of "numeral (Num.Bit0 n)"]
      compute_bitlen [of "numeral (Num.Bit1 n)"])

lemmas double_eval = roundDouble_def floorLog2_def pow2_def pow10_def roundHalfEven_def Let_def

lemmas parse_eval = parseFloat_def unsignedLiteral_def exponentPart_def digitsValue_def
  isDigit_def isWhiteSpace_def js_def

lemmas fixed_eval = toFixed2_def fixedDigits_def centsNotation_def Let_def toStringNat.simps
  js_def

text \<open>The literal \<open>1.15\<close> is the double \<open>5179139571476070 / 2 ^ 52\<close>, a little below 1.15.\<close>

lemma double_1_15: "literal_1_15 = Finite (5179139571476070 / 4503599627370496)"
  by (simp add: literal_1_15_def double_eval)

lemma parseFloat_100: "parseFloat (js ''100'') = Finite 100"
  by (simp add: parse_eval double_eval)

text \<open>The product \<open>100 * 1.15\<close> is the double just below 115.\<close>

lemma mul_100_1_15:
  "mul (Finite 100) (Finite (5179139571476070 / 4503599627370496)) =
     Finite (8092405580431359 / 70368744177664)"
  by (simp add: double_eval)

lemma toFixed2_100_1_15: "toFixed2 (Finite (8092405580431359 / 70368744177664)) = js ''115.00''"
  by (simp add: fixed_eval)

lemma derivedPrice_100: "derivedPrice (js ''100'') = js ''115.00''"
  by (simp only: derivedPrice_def parseFloat_100 double_1_15 mul_100_1_15 toFixed2_100_1_15)

lemma parseFloat_1_3: "parseFloat (js ''1.3'') = Finite (5854679515581645 / 4503599627370496)"
  by (simp add: parse_eval double_eval)

lemma mul_1_3_1_15:
  "mul (Finite (5854679515581645 / 4503599627370496)) (Finite (5179139571476070 / 4503599627370496)) =
     Finite (6732881442918891 / 4503599627370496)"
  by (simp add: double_eval)

lemma toFixed2_1_3_1_15: "toFixed2 (Finite (6732881442918891 / 4503599627370496)) = js ''1.49''"
  by (simp add: fixed_eval)

lemma derivedPrice_1_3: "derivedPrice (js ''1.3'') = js ''1.49''"
  by (simp only: derivedPrice_def parseFloat_1_3 double_1_15 mul_1_3_1_15 toFixed2_1_3_1_15)

lemma parseFloat_no_number: "parseFloat (js ''Fiyat yok'') = NaN"
  by (simp add: parse_eval)

lemma derivedPrice_no_number: "derivedPrice (js ''Fiyat yok'') = js ''NaN''"
  by (simp add: derivedPrice_def parseFloat_no_number double_1_15 toFixed2_def)


section \<open>Properties of the price extractor\<close>

text \<open>No strategy yields a price: the first JSON-LD block gives none and no price element exists.\<close>

lemma scrapePrice_raises:
  assumes "texts pg priceSelector = []" and "texts pg altPriceSelector = []"
    and "\<forall>schema rest. ldScripts pg = Json schema # rest \<longrightarrow> ld_offers_price schema = None"
  shows "scrapePrice pg =
           Inl (case ldScripts pg of
                  Malformed # rest \<Rightarrow> SyntaxError
                | JsonNull # rest \<Rightarrow> TypeError
                | _ \<Rightarrow> Error (js ''Fiyat bilgisi bulunamad'' @ [0x131]))"
  using assms
  by (auto simp: scrapePrice_def priceFromDom_def split: list.splits ld_script.splits option.splits)

text \<open>
  C4, as the code has it. When none of the three price strategies yields a price (the
  first JSON-LD block gives no truthy \<open>offers.price\<close> and neither price selector matches
  an element), the price extractor raises an error that is not a TrendyolScrapingError:
  the plain Error "Fiyat bilgisi bulunamadi", or the SyntaxError or TypeError of reading
  the first JSON-LD block. The error handler answers it with the generic unexpected-error
  response, status 500.
\<close>

theorem scrapePrice_raises_generic_error:
  assumes "texts pg priceSelector = []" and "texts pg altPriceSelector = []"
    and "\<forall>schema rest. ldScripts pg = Json schema # rest \<longrightarrow> ld_offers_price schema = None"
  shows "\<exists>e. scrapePrice pg = Inl e \<and> \<not> isTrendyolScrapingError e \<and>
           (e = SyntaxError \<or> e = TypeError \<or> e = Error (js ''Fiyat bilgisi bulunamad'' @ [0x131])) \<and>
           handleError e =
             \<lparr>status = 500, message = js ''Beklenmeyen bir hata olu'' @ [0x15F] @ js ''tu'', details = None\<rparr>"
  using scrapePrice_raises [OF assms]
  by (auto split: list.splits ld_script.splits)

theorem scrapePrice_raises_generic_error_witness:
  "\<exists>e. scrapePrice noOfferPage = Inl e \<and> \<not> isTrendyolScrapingError e \<and>
     (e = SyntaxError \<or> e = TypeError \<or> e = Error (js ''Fiyat bilgisi bulunamad'' @ [0x131])) \<and>
     handleError e =
       \<lparr>status = 500, message = js ''Beklenmeyen bir hata olu'' @ [0x15F] @ js ''tu'', details = None\<rparr>"
proof -
  have h1: "texts noOfferPage priceSelector = []"
    by (simp add: noOfferPage_def emptyPage_def)
  have h2: "texts noOfferPage altPriceSelector = []"
    by (simp add: noOfferPage_def emptyPage_def)
  have h3: "\<forall>schema rest. ldScripts noOfferPage = Json schema # rest \<longrightarrow>
      ld_offers_price schema = None"
    by (simp add: noOfferPage_def emptySchema_def)
  show ?thesis
    by (rule scrapePrice_raises_generic_error [OF h1 h2 h3])
qed

text \<open>
  C4, as the claim states it, fails: on the page where every query comes back empty the
  extractor raises a plain Error, which is not a scraping error, and the response is the
  generic one and not the one a scraping error gets.
\<close>

theorem scrapePrice_scraping_error_counterexample:
  "scrapePrice emptyPage = Inl (Error (js ''Fiyat bilgisi bulunamad'' @ [0x131])) \<and>
   \<not> isTrendyolScrapingError (Error (js ''Fiyat bilgisi bulunamad'' @ [0x131])) \<and>
   handleError (Error (js ''Fiyat bilgisi bulunamad'' @ [0x131])) =
     \<lparr>status = 500, message = js ''Beklenmeyen bir hata olu'' @ [0x15F] @ js ''tu'', details = None\<rparr> \<and>
   handleError (Error (js ''Fiyat bilgisi bulunamad'' @ [0x131])) \<noteq>
     handleError (TrendyolScrapingError (js ''Fiyat bilgisi bulunamad'' @ [0x131]) None)"
  by (simp add: scrapePrice_def priceFromDom_def emptyPage_def js_def)

section \<open>Properties of the scrape request\<close>

lemma urlSchema_parse_invalid:
  "\<not> isProductUrl parseUrl u \<Longrightarrow> urlSchema_parse parseUrl (Some u) = Inl ZodError"
  by (simp add: urlSchema_parse_def)

lemma urlSchema_parse_valid:
  "urlSchema_parse parseUrl body = Inr u \<longleftrightarrow> body = Some u \<and> isProductUrl parseUrl u"
  by (auto simp: urlSchema_parse_def split: option.splits)

text \<open>
  C3. A URL that does not parse, or does not name the host www.trendyol.com with a path
  containing "/p-" or "-p-", is rejected before any fetch and before any cache write: the
  server is left as it was. The error raised is the ZodError of the schema library,
  which the error handler does not know, so the caller gets the generic unexpected-error
  response with status 500 and not a client error.
\<close>

theorem invalid_url_rejected_before_fetch_with_status_500:
  assumes "\<not> isProductUrl parseUrl u"
  shows "scrapeHandler parseUrl web sv (Some u) =
           (sv, ErrorReply \<lparr>status = 500, message = js ''Beklenmeyen bir hata olu'' @ [0x15F] @ js ''tu'',
                            details = None\<rparr>)"
  using urlSchema_parse_invalid [OF assms]
  by (simp add: scrapeHandler_def receive_def failed_def)

theorem invalid_url_rejected_before_fetch_with_status_500_witness:
  "scrapeHandler exampleParser shirtWeb freshServer (Some foreignUrl) =
     (freshServer, ErrorReply \<lparr>status = 500, message = js ''Beklenmeyen bir hata olu'' @ [0x15F] @ js ''tu'',
                               details = None\<rparr>)"
proof -
  have "\<not> isProductUrl exampleParser foreignUrl"
    by (simp add: isProductUrl_def exampleParser_def foreignUrl_def shopUrl_def js_def)
  then show ?thesis
    by (rule invalid_url_rejected_before_fetch_with_status_500)
qed

lemma shirt_price: "scrapePrice shirtPage = Inr (js ''115.00'', js ''100'')"
  by (simp add: scrapePrice_def shirtPage_def shirtSchema_def emptyPage_def emptySchema_def
      derivedPrice_100)

lemma shirt_variants: "scrapeVariants shirtPage shirtSchema = \<lparr>sizes = [], colors = []\<rparr>"
  by (simp add: scrapeVariants_def sizeSelectors_def colorSelectors_def trimmedTexts_def
      shirtPage_def shirtSchema_def emptyPage_def emptySchema_def)

lemma shirt_attributes: "scrapeProductAttributes shirtPage = []"
  by (simp add: scrapeProductAttributes_def fromGroups_def fromSpecials_def fromSpecial_def
      fromSelectors_def fromContainers_def fromSchema_def schemaProperties_def bound_def
      specialAttributes_def attributeSelectors_def shirtPage_def shirtSchema_def emptyPage_def
      emptySchema_def)

lemma shirt_categories: "scrapeTrendyolCategories shirtPage = [js ''Giyim'']"
  by (simp add: scrapeTrendyolCategories_def schemaCategories_def breadcrumbCategories_def
      detailCategories_def titleCategories_def firstText_def allText_def pushNew_def trim_def
      shirtPage_def shirtSchema_def emptyPage_def emptySchema_def)

lemma shirt_images: "scrapeImages shirtPage shirtSchema = Inr [js ''a.jpg'']"
  by (simp add: scrapeImages_def schemaImages_def shirtSchema_def emptySchema_def js_def)

lemma shirt_brand: "brandOf shirtSchema (js ''Mavi Basic Shirt'') = js ''Mavi''"
  by (simp add: brandOf_def shirtSchema_def emptySchema_def js_def)

text \<open>
  What a task does on the page of the shirt, and the three runs of the concrete inputs.
\<close>

lemma shop_valid: "isProductUrl exampleParser shopUrl"
  by (simp add: isProductUrl_def exampleParser_def js_def)

lemma receive_shop:
  "receive exampleParser sv (Some shopUrl) = AwaitGetProduct shopUrl (getProduct (storage sv) shopUrl)"
  by (simp add: receive_def urlSchema_parse_def shop_valid)

lemma shirt_fetch: "resume shirtWeb sv (AwaitFetch u) = (sv, AwaitText u shirtPage)"
  by (simp add: shirtWeb_def)

lemma shirt_text:
  "resume web sv (AwaitText u shirtPage) =
     (sv, AwaitScrapePrice u shirtPage shirtSchema (Inr (js ''115.00'', js ''100'')))"
proof -
  have "js ''Product'' \<noteq> []" "js ''Mavi Basic Shirt'' \<noteq> []"
    by (simp_all add: js_def)
  then show ?thesis
    by (simp add: shirtPage_def shirtSchema_def shirt_price [unfolded shirtPage_def shirtSchema_def])
qed

lemma shirt_priced:
  "resume web sv (AwaitScrapePrice u shirtPage shirtSchema (Inr (js ''115.00'', js ''100''))) =
     (sv, AwaitCategories u shirtPage shirtSchema (js ''115.00'', js ''100'') [js ''Giyim''])"
proof -
  have "js ''A shirt'' \<noteq> []" "js ''115.00'' \<noteq> []"
    by (simp_all add: js_def)
  moreover have "ld_description shirtSchema = Some (js ''A shirt'')"
    by (simp add: shirtSchema_def)
  ultimately show ?thesis
    by (simp add: shirt_categories)
qed

lemma shirt_categorized:
  "resume web sv (AwaitCategories u shirtPage shirtSchema prices cats) =
     (sv, AwaitAttributes u shirtPage shirtSchema prices cats [])"
  by (simp add: shirt_attributes)

lemma shirt_attributed:
  "resume web sv (AwaitAttributes u shirtPage shirtSchema prices cats attrs) =
     (sv, AwaitVariants u shirtSchema prices cats attrs [js ''a.jpg''] \<lparr>sizes = [], colors = []\<rparr>)"
  by (simp add: shirt_images shirt_variants)

lemma shirt_saved:
  "resume web sv (AwaitVariants shopUrl shirtSchema (js ''115.00'', js ''100'') [js ''Giyim''] []
       [js ''a.jpg''] \<lparr>sizes = [], colors = []\<rparr>) =
     (sv\<lparr>storage :=
          \<lparr>products = (products (storage sv))
             (shopUrl \<mapsto> shirtProduct\<lparr>product_id := currentId (storage sv)\<rparr>),
           currentId = currentId (storage sv) + 1\<rparr>\<rparr>,
      AwaitSaveProduct (shirtProduct\<lparr>product_id := currentId (storage sv)\<rparr>))"
proof -
  have "ld_name shirtSchema = Some (js ''Mavi Basic Shirt'')"
    "ld_description shirtSchema = Some (js ''A shirt'')"
    by (simp_all add: shirtSchema_def)
  then show ?thesis
    by (simp add: shirt_brand saveProduct_def withId_def shirtProduct_def Let_def)
qed

lemma shirt_id: "shirtProduct\<lparr>product_id := Suc 0\<rparr> = shirtProduct"
  by (simp add: shirtProduct_def)

lemma shirt_other_id: "shirtProduct\<lparr>product_id := 2\<rparr> \<noteq> shirtProduct"
proof
  assume "shirtProduct\<lparr>product_id := 2\<rparr> = shirtProduct"
  then have "product_id (shirtProduct\<lparr>product_id := 2\<rparr>) = product_id shirtProduct"
    by (rule arg_cong)
  then show False
    by (simp add: shirtProduct_def)
qed

lemmas run_steps = afterEvents_def getProduct_def receive_shop shirt_fetch shirt_text shirt_priced
  shirt_categorized shirt_attributed shirt_saved shirt_id numeral_2_eq_2 numeral_3_eq_3

lemma first_scrape_alone: "afterEvents exampleParser freshRuntime firstScrape = scrapedOnce"
  by (simp add: firstScrape_def freshRuntime_def freshServer_def newStorage_def scrapedOnce_def
      run_steps del: resume.simps(2-7))

lemma receive_foreign: "receive exampleParser sv (Some foreignUrl) = failed ZodError"
  by (simp add: receive_def urlSchema_parse_def isProductUrl_def exampleParser_def
      foreignUrl_def shopUrl_def js_def)

lemma later_requests:
  "afterEvents exampleParser scrapedOnce laterRequests =
     \<lparr>srv = \<lparr>storage = \<lparr>products = [shopUrl \<mapsto> shirtProduct], currentId = 2\<rparr>,
             fetched = [shopUrl]\<rparr>,
      jobs = [\<lparr>network = shirtWeb, request = Some shopUrl,
               stage = Finished (ProductReply shirtProduct)\<rparr>,
              \<lparr>network = downWeb, request = Some shopUrl,
               stage = AwaitGetProduct shopUrl (Some shirtProduct)\<rparr>,
              \<lparr>network = shirtWeb, request = Some foreignUrl, stage = failed ZodError\<rparr>,
              \<lparr>network = downWeb, request = Some shopUrl,
               stage = Finished (ProductReply shirtProduct)\<rparr>]\<rparr>"
  by (simp add: laterRequests_def scrapedOnce_def run_steps receive_foreign failed_def
      del: resume.simps(2-7))

lemma overlapping_requests:
  "afterEvents exampleParser freshRuntime overlappingRequests =
     \<lparr>srv = \<lparr>storage = \<lparr>products = [shopUrl \<mapsto> shirtProduct\<lparr>product_id := 2\<rparr>],
                         currentId = 3\<rparr>,
             fetched = [shopUrl, shopUrl]\<rparr>,
      jobs = [\<lparr>network = shirtWeb, request = Some shopUrl,
               stage = Finished (ProductReply shirtProduct)\<rparr>,
              \<lparr>network = shirtWeb, request = Some shopUrl,
               stage = Finished (ProductReply (shirtProduct\<lparr>product_id := 2\<rparr>))\<rparr>,
              \<lparr>network = downWeb, request = Some shopUrl,
               stage = Finished (ProductReply (shirtProduct\<lparr>product_id := 2\<rparr>))\<rparr>]\<rparr>"
  by (simp add: overlappingRequests_def freshRuntime_def freshServer_def newStorage_def
      run_steps del: resume.simps(2-7))

text \<open>
  A step of a task that may not write an entry for \<open>u\<close> leaves the entry of \<open>u\<close> as it
  is, fetches nothing from \<open>u\<close>, and gives such a task again.
\<close>

lemma resume_keeps:
  assumes cached: "getProduct (storage sv) u = Some p" and quiet: "\<not> pending u t"
  shows "getProduct (storage (fst (resume web sv t))) u = Some p \<and>
         \<not> pending u (snd (resume web sv t)) \<and>
         filter (\<lambda>v. v = u) (fetched (fst (resume web sv t))) = filter (\<lambda>v. v = u) (fetched sv)"
proof (cases t)
  case (AwaitVariants v schema prices cats attrs imgs vars)
  with quiet have "v \<noteq> u" by simp
  with cached show ?thesis
    by (simp add: AwaitVariants saveProduct_def getProduct_def withId_def Let_def)
qed (use assms in \<open>auto simp: failed_def
      split: option.splits fetch_result.splits list.splits ld_script.splits sum.splits
        prod.splits\<close>)

lemma resume_served:
  "served u p t \<Longrightarrow> snd (resume web sv t) = Finished (ProductReply p)"
  by (auto simp: served_def)

lemma receive_served:
  "isProductUrl parseUrl u \<Longrightarrow> getProduct (storage sv) u = Some p \<Longrightarrow>
   served u p (receive parseUrl sv (Some u))"
  by (simp add: served_def receive_def urlSchema_parse_def)

lemma receive_quiet:
  "getProduct (storage sv) u = Some p \<Longrightarrow> \<not> pending u (receive parseUrl sv body)"
  by (auto simp: receive_def failed_def urlSchema_parse_def split: option.splits)

lemma occur_keeps:
  assumes valid: "isProductUrl parseUrl u" and inv: "cachedQuiet u p n rt"
  shows "cachedQuiet u p n (occur parseUrl rt ev) \<and>
         filter (\<lambda>v. v = u) (fetched (srv (occur parseUrl rt ev))) =
           filter (\<lambda>v. v = u) (fetched (srv rt)) \<and>
         length (jobs rt) \<le> length (jobs (occur parseUrl rt ev))"
proof (cases ev)
  case (Arrive web body)
  from inv have cached: "getProduct (storage (srv rt)) u = Some p"
    by (simp add: cachedQuiet_def)
  have new: "body = Some u \<Longrightarrow> served u p (receive parseUrl (srv rt) body)"
    using receive_served [OF valid cached] by simp
  from inv receive_quiet [OF cached] new show ?thesis
    by (auto simp: Arrive cachedQuiet_def nth_append)
next
  case (Continue i)
  show ?thesis
  proof (cases "i < length (jobs rt)")
    case False
    with inv show ?thesis by (simp add: Continue)
  next
    case True
    define j where "j = jobs rt ! i"
    define sv' where "sv' = fst (resume (network j) (srv rt) (stage j))"
    define t' where "t' = snd (resume (network j) (srv rt) (stage j))"
    have rt': "occur parseUrl rt ev = \<lparr>srv = sv', jobs = (jobs rt)[i := j\<lparr>stage := t'\<rparr>]\<rparr>"
      using True by (simp add: Continue j_def sv'_def t'_def Let_def split_beta)
    from inv have cached: "getProduct (storage (srv rt)) u = Some p"
      and quiet: "\<forall>j \<in> set (jobs rt). \<not> pending u (stage j)"
      and news: "\<forall>i. n \<le> i \<longrightarrow> i < length (jobs rt) \<longrightarrow> request (jobs rt ! i) = Some u \<longrightarrow>
        served u p (stage (jobs rt ! i))"
      by (simp_all add: cachedQuiet_def)
    have "j \<in> set (jobs rt)" using True by (simp add: j_def)
    with quiet have "\<not> pending u (stage j)" by blast
    from resume_keeps [OF cached this, of "network j"]
    have c': "getProduct (storage sv') u = Some p" and q': "\<not> pending u t'"
      and f': "filter (\<lambda>v. v = u) (fetched sv') = filter (\<lambda>v. v = u) (fetched (srv rt))"
      by (simp_all add: sv'_def t'_def)
    have quiet': "\<forall>k \<in> set ((jobs rt)[i := j\<lparr>stage := t'\<rparr>]). \<not> pending u (stage k)"
    proof
      fix k assume "k \<in> set ((jobs rt)[i := j\<lparr>stage := t'\<rparr>])"
      then have "k = j\<lparr>stage := t'\<rparr> \<or> k \<in> set (jobs rt)"
        using set_update_subset_insert [of "jobs rt" i "j\<lparr>stage := t'\<rparr>"] by auto
      with q' quiet show "\<not> pending u (stage k)" by auto
    qed
    have news': "served u p (stage (((jobs rt)[i := j\<lparr>stage := t'\<rparr>]) ! k))"
      if "n \<le> k" "k < length (jobs rt)" "request (((jobs rt)[i := j\<lparr>stage := t'\<rparr>]) ! k) = Some u" for k
    proof (cases "k = i")
      case False
      with that news show ?thesis by simp
    next
      case k: True
      with that True have "request j = Some u" by simp
      with news that k have "served u p (stage j)" by (simp add: j_def)
      from resume_served [OF this] have "t' = Finished (ProductReply p)" by (simp add: t'_def)
      with k True show ?thesis by (simp add: served_def)
    qed
    from c' quiet' news' f' show ?thesis
      by (simp add: rt' cachedQuiet_def)
  qed
qed

lemma afterEvents_keeps:
  assumes valid: "isProductUrl parseUrl u"
  shows "cachedQuiet u p n rt \<Longrightarrow>
         cachedQuiet u p n (afterEvents parseUrl rt evs) \<and>
         filter (\<lambda>v. v = u) (fetched (srv (afterEvents parseUrl rt evs))) =
           filter (\<lambda>v. v = u) (fetched (srv rt)) \<and>
         length (jobs rt) \<le> length (jobs (afterEvents parseUrl rt evs))"
proof (induction evs arbitrary: rt)
  case Nil
  then show ?case by (simp add: afterEvents_def)
next
  case (Cons ev evs)
  from occur_keeps [OF valid Cons.prems, of ev]
  have step: "cachedQuiet u p n (occur parseUrl rt ev)"
    "filter (\<lambda>v. v = u) (fetched (srv (occur parseUrl rt ev))) =
       filter (\<lambda>v. v = u) (fetched (srv rt))"
    "length (jobs rt) \<le> length (jobs (occur parseUrl rt ev))"
    by simp_all
  from Cons.IH [OF step(1)] step(2,3) show ?case
    by (simp add: afterEvents_def)
qed

text \<open>The steps of a task lead to its answer.\<close>

lemma resume_decreases:
  "stepsLeft t \<noteq> 0 \<Longrightarrow> stepsLeft (snd (resume web sv t)) < stepsLeft t"
  by (cases t)
    (auto simp: failed_def Let_def
      split: option.splits fetch_result.splits list.splits ld_script.splits sum.splits
        prod.splits if_splits)

lemma answerAlone_step:
  "answerAlone web sv t = answerAlone web (fst (resume web sv t)) (snd (resume web sv t))"
  by (cases t) simp_all

lemma stepsLeft_0: "stepsLeft t = 0 \<Longrightarrow> \<exists>r. t = Finished r"
  by (cases t) simp_all

text \<open>
  A task taken alone to its answer is the task after as many steps as it is from its
  answer, or more.
\<close>

lemma answerAlone_resumes:
  "stepsLeft t \<le> n \<Longrightarrow>
   ((\<lambda>(s, t). resume web s t) ^^ n) (sv, t) =
     (fst (answerAlone web sv t), Finished (snd (answerAlone web sv t)))"
proof (induction n arbitrary: sv t)
  case 0
  then obtain r where "t = Finished r" using stepsLeft_0 by auto
  then show ?case by simp
next
  case (Suc n)
  have unroll: "((\<lambda>(s, t). resume web s t) ^^ Suc n) (sv, t) =
      ((\<lambda>(s, t). resume web s t) ^^ n) (fst (resume web sv t), snd (resume web sv t))"
    by (simp add: funpow_swap1)
  show ?case
  proof (cases "stepsLeft t = 0")
    case True
    then obtain r where t: "t = Finished r" using stepsLeft_0 by auto
    have "stepsLeft t \<le> n" using True by simp
    from Suc.IH [OF this, of sv] show ?thesis
      unfolding unroll by (simp add: t)
  next
    case False
    from resume_decreases [OF False, of web sv] Suc.prems
    have "stepsLeft (snd (resume web sv t)) \<le> n" by simp
    from Suc.IH [OF this, of "fst (resume web sv t)"] show ?thesis
      unfolding unroll by (simp add: answerAlone_step [of web sv t])
  qed
qed

lemma stepsLeft_le: "stepsLeft t \<le> 8"
  by (cases t) simp_all


lemma continue_resumes:
  "i < length (jobs rt) \<Longrightarrow>
   afterEvents parseUrl rt (replicate n (Continue i)) =
     \<lparr>srv = fst (((\<lambda>(s, t). resume (network (jobs rt ! i)) s t) ^^ n)
                   (srv rt, stage (jobs rt ! i))),
      jobs = (jobs rt)[i := (jobs rt ! i)
               \<lparr>stage := snd (((\<lambda>(s, t). resume (network (jobs rt ! i)) s t) ^^ n)
                              (srv rt, stage (jobs rt ! i)))\<rparr>]\<rparr>"
proof (induction n arbitrary: rt)
  case 0
  then show ?case by (simp add: afterEvents_def)
next
  case (Suc n)
  define j where "j = jobs rt ! i"
  define sv1 where "sv1 = fst (resume (network j) (srv rt) (stage j))"
  define t1 where "t1 = snd (resume (network j) (srv rt) (stage j))"
  define rt1 where "rt1 = \<lparr>srv = sv1, jobs = (jobs rt)[i := j\<lparr>stage := t1\<rparr>]\<rparr>"
  have step: "occur parseUrl rt (Continue i) = rt1"
    using Suc.prems by (simp add: rt1_def j_def sv1_def t1_def Let_def split_beta)
  have len: "i < length (jobs rt1)"
    using Suc.prems by (simp add: rt1_def)
  have at: "jobs rt1 ! i = j\<lparr>stage := t1\<rparr>" "srv rt1 = sv1"
    using Suc.prems by (simp_all add: rt1_def)
  have unroll: "((\<lambda>(s, t). resume (network j) s t) ^^ Suc n) (srv rt, stage j) =
      ((\<lambda>(s, t). resume (network j) s t) ^^ n) (sv1, t1)"
    by (simp add: funpow_swap1 sv1_def t1_def)
  have "afterEvents parseUrl rt (replicate (Suc n) (Continue i)) =
      afterEvents parseUrl rt1 (replicate n (Continue i))"
    using step by (simp add: afterEvents_def)
  also note Suc.IH [OF len]
  finally show ?case
    unfolding at j_def [symmetric] unroll by (simp add: rt1_def)
qed

text \<open>
  A request that arrives and is taken to its answer before anything else happens: the
  server and the answer are those of the handler run alone.
\<close>

lemma answered_alone:
  "afterEvents parseUrl rt (Arrive web body # replicate 8 (Continue (length (jobs rt)))) =
     \<lparr>srv = fst (scrapeHandler parseUrl web (srv rt) body),
      jobs = jobs rt @ [\<lparr>network = web, request = body,
                         stage = Finished (snd (scrapeHandler parseUrl web (srv rt) body))\<rparr>]\<rparr>"
proof -
  define rt1 where "rt1 = occur parseUrl rt (Arrive web body)"
  have at: "jobs rt1 ! length (jobs rt) =
      \<lparr>network = web, request = body, stage = receive parseUrl (srv rt) body\<rparr>"
    "srv rt1 = srv rt" "length (jobs rt) < length (jobs rt1)"
    "jobs rt1 = jobs rt @ [\<lparr>network = web, request = body, stage = receive parseUrl (srv rt) body\<rparr>]"
    by (simp_all add: rt1_def)
  have "afterEvents parseUrl rt (Arrive web body # replicate 8 (Continue (length (jobs rt)))) =
      afterEvents parseUrl rt1 (replicate 8 (Continue (length (jobs rt))))"
    by (simp add: afterEvents_def rt1_def)
  also note continue_resumes [OF at(3)]
  finally show ?thesis
    unfolding at(1,2) by (simp add: at(4) answerAlone_resumes [OF stepsLeft_le] scrapeHandler_def)
qed

lemma resume_tracks:
  "tracks u sv t \<Longrightarrow> tracks u (fst (resume web sv t)) (snd (resume web sv t))"
  by (cases t)
    (auto simp: failed_def Let_def saveProduct_def getProduct_def withId_def
      split: option.splits fetch_result.splits list.splits ld_script.splits sum.splits
        prod.splits if_splits reply.splits)

lemma resumes_track:
  "tracks u sv t \<Longrightarrow>
   tracks u (fst (((\<lambda>(s, t). resume web s t) ^^ n) (sv, t)))
            (snd (((\<lambda>(s, t). resume web s t) ^^ n) (sv, t)))"
proof (induction n)
  case 0
  then show ?case by simp
next
  case (Suc n)
  from resume_tracks [OF Suc.IH [OF Suc.prems]] show ?case
    by (simp add: split_beta)
qed

text \<open>A request handled alone that is answered with a record leaves that record in the cache.\<close>

lemma scrapeHandler_product_cached:
  assumes "snd (scrapeHandler parseUrl web sv (Some u)) = ProductReply p"
  shows "isProductUrl parseUrl u \<and>
         getProduct (storage (fst (scrapeHandler parseUrl web sv (Some u)))) u = Some p"
proof -
  have valid: "isProductUrl parseUrl u"
  proof (rule ccontr)
    assume "\<not> isProductUrl parseUrl u"
    then have "scrapeHandler parseUrl web sv (Some u) = (sv, ErrorReply (handleError ZodError))"
      by (simp add: scrapeHandler_def receive_def failed_def urlSchema_parse_def)
    with assms show False by simp
  qed
  define t where "t = receive parseUrl sv (Some u)"
  have "tracks u sv t"
    using valid by (simp add: t_def receive_def urlSchema_parse_def)
  from resumes_track [OF this, where web = web and n = 8]
  have "tracks u (fst (answerAlone web sv t)) (Finished (snd (answerAlone web sv t)))"
    by (simp add: answerAlone_resumes [OF stepsLeft_le])
  with assms have "getProduct (storage (fst (answerAlone web sv t))) u = Some p"
    by (simp add: scrapeHandler_def t_def)
  with valid show ?thesis
    by (simp add: scrapeHandler_def t_def)
qed

text \<open>
  When no request for \<open>u\<close> is on its way to \<open>saveProduct\<close> and a request for \<open>u\<close> arrives
  and is answered with a record before anything else happens, the record is in the cache
  and again no request for \<open>u\<close> is on its way to \<open>saveProduct\<close>.
\<close>

lemma answered_alone_cached:
  assumes quiet: "\<forall>j \<in> set (jobs rt). \<not> pending u (stage j)"
    and answer: "snd (scrapeHandler parseUrl web (srv rt) (Some u)) = ProductReply p"
  shows "isProductUrl parseUrl u \<and>
         getProduct (storage (srv (afterEvents parseUrl rt
           (Arrive web (Some u) # replicate 8 (Continue (length (jobs rt))))))) u = Some p \<and>
         (\<forall>j \<in> set (jobs (afterEvents parseUrl rt
           (Arrive web (Some u) # replicate 8 (Continue (length (jobs rt)))))).
            \<not> pending u (stage j)) \<and>
         stage (jobs (afterEvents parseUrl rt
           (Arrive web (Some u) # replicate 8 (Continue (length (jobs rt))))) ! length (jobs rt)) =
           Finished (ProductReply p)"
  using scrapeHandler_product_cached [OF answer] quiet answer
  by (simp add: answered_alone)

text \<open>
  C9, as the code has it. Let the record \<open>p\<close> be in the cache under the valid URL \<open>u\<close>,
  and let no request that has missed the cache for \<open>u\<close> be on its way to
  \<open>saveProduct\<close>; this is the state after a request for \<open>u\<close> has been answered with \<open>p\<close>
  before anything else happened (lemma \<open>answered_alone_cached\<close>). Then whatever happens
  from there on, requests arriving and going on in any order and whatever the network
  holds: the entry of \<open>u\<close> stays \<open>p\<close>, \<open>fetch\<close> is not called for \<open>u\<close> again, and every
  request for \<open>u\<close> that arrives has found \<open>p\<close> at its lookup, or has sent it, and sends
  \<open>p\<close> (the same id, the same fields) at its next step. The lookup precedes the fetch
  and a hit ends the request.
\<close>

theorem repeated_scrape_answered_from_cache:
  assumes valid: "isProductUrl parseUrl u"
    and cached: "getProduct (storage (srv rt)) u = Some p"
    and quiet: "\<forall>j \<in> set (jobs rt). \<not> pending u (stage j)"
  shows "getProduct (storage (srv (afterEvents parseUrl rt evs))) u = Some p \<and>
         filter (\<lambda>v. v = u) (fetched (srv (afterEvents parseUrl rt evs))) =
           filter (\<lambda>v. v = u) (fetched (srv rt)) \<and>
         (\<forall>i. length (jobs rt) \<le> i \<longrightarrow> i < length (jobs (afterEvents parseUrl rt evs)) \<longrightarrow>
            request (jobs (afterEvents parseUrl rt evs) ! i) = Some u \<longrightarrow>
              (stage (jobs (afterEvents parseUrl rt evs) ! i) = AwaitGetProduct u (Some p) \<or>
               stage (jobs (afterEvents parseUrl rt evs) ! i) = Finished (ProductReply p)) \<and>
              stage (jobs (afterEvents parseUrl rt (evs @ [Continue i])) ! i) =
                Finished (ProductReply p))"
proof -
  have start: "cachedQuiet u p (length (jobs rt)) rt"
    using cached quiet by (simp add: cachedQuiet_def)
  from afterEvents_keeps [OF valid start, of evs]
  have inv: "cachedQuiet u p (length (jobs rt)) (afterEvents parseUrl rt evs)"
    and fetches: "filter (\<lambda>v. v = u) (fetched (srv (afterEvents parseUrl rt evs))) =
           filter (\<lambda>v. v = u) (fetched (srv rt))"
    by simp_all
  have answered: "stage (jobs (afterEvents parseUrl rt (evs @ [Continue i])) ! i) =
      Finished (ProductReply p)"
    if "i < length (jobs (afterEvents parseUrl rt evs))"
      and "served u p (stage (jobs (afterEvents parseUrl rt evs) ! i))" for i
    using that resume_served [OF that(2)]
    by (simp add: afterEvents_def Let_def split_beta)
  from inv fetches answered show ?thesis
    unfolding cachedQuiet_def served_def by blast
qed

theorem repeated_scrape_answered_from_cache_witness:
  "afterEvents exampleParser freshRuntime firstScrape = scrapedOnce \<and>
   getProduct (storage (srv (afterEvents exampleParser scrapedOnce laterRequests))) shopUrl =
     Some shirtProduct \<and>
   filter (\<lambda>v. v = shopUrl) (fetched (srv (afterEvents exampleParser scrapedOnce laterRequests))) =
     [shopUrl] \<and>
   stage (jobs (afterEvents exampleParser scrapedOnce laterRequests) ! 3) =
     Finished (ProductReply shirtProduct) \<and>
   stage (jobs (afterEvents exampleParser scrapedOnce (laterRequests @ [Continue 1])) ! 1) =
     Finished (ProductReply shirtProduct)"
proof -
  have cached: "getProduct (storage (srv scrapedOnce)) shopUrl = Some shirtProduct"
    by (simp add: scrapedOnce_def getProduct_def)
  have quiet: "\<forall>j \<in> set (jobs scrapedOnce). \<not> pending shopUrl (stage j)"
    by (simp add: scrapedOnce_def)
  note at_later = repeated_scrape_answered_from_cache [OF shop_valid cached quiet, of laterRequests]
  have arrived: "length (jobs scrapedOnce) \<le> 1"
    "1 < length (jobs (afterEvents exampleParser scrapedOnce laterRequests))"
    "request (jobs (afterEvents exampleParser scrapedOnce laterRequests) ! 1) = Some shopUrl"
    "length (jobs scrapedOnce) \<le> 3"
    "3 < length (jobs (afterEvents exampleParser scrapedOnce laterRequests))"
    "request (jobs (afterEvents exampleParser scrapedOnce laterRequests) ! 3) = Some shopUrl"
    by (simp_all add: later_requests) (simp_all add: scrapedOnce_def)
  have waiting: "stage (jobs (afterEvents exampleParser scrapedOnce laterRequests) ! 3) \<noteq>
      AwaitGetProduct shopUrl (Some shirtProduct)"
    by (simp add: later_requests)
  have once: "filter (\<lambda>v. v = shopUrl) (fetched (srv scrapedOnce)) = [shopUrl]"
    by (simp add: scrapedOnce_def)
  from at_later arrived waiting once first_scrape_alone show ?thesis
    by metis
qed

text \<open>
  C9, as the claim states it, fails when requests overlap. Two requests for the shop URL
  arrive on a fresh server, the second while the first waits for its response: both miss
  the cache, both call \<open>fetch\<close> and both call \<open>saveProduct\<close>. The first is answered with
  the record of id 1; the second save replaces the entry by a record of id 2, and a third
  request, arriving after both, is answered with that one.
\<close>

theorem repeated_scrape_overlapping_counterexample:
  "map request (jobs (afterEvents exampleParser freshRuntime overlappingRequests)) =
     [Some shopUrl, Some shopUrl, Some shopUrl] \<and>
   stage (jobs (afterEvents exampleParser freshRuntime overlappingRequests) ! 0) =
     Finished (ProductReply shirtProduct) \<and>
   stage (jobs (afterEvents exampleParser freshRuntime overlappingRequests) ! 2) =
     Finished (ProductReply (shirtProduct\<lparr>product_id := 2\<rparr>)) \<and>
   shirtProduct\<lparr>product_id := 2\<rparr> \<noteq> shirtProduct \<and>
   fetched (srv (afterEvents exampleParser freshRuntime overlappingRequests)) = [shopUrl, shopUrl] \<and>
   getProduct (storage (srv (afterEvents exampleParser freshRuntime overlappingRequests))) shopUrl =
     Some (shirtProduct\<lparr>product_id := 2\<rparr>)"
  using shirt_other_id by (simp add: overlapping_requests getProduct_def)


section \<open>Properties of the derived price\<close>

lemma digitsValue_snoc: "digitsValue (ds @ [c]) = 10 * digitsValue ds + (c - 0x30)"
  by (simp add: digitsValue_def)

lemma digitsValue_append:
  "digitsValue (a @ b) = digitsValue a * 10 ^ length b + digitsValue b"
proof (induction b rule: rev_induct)
  case Nil
  then show ?case by (simp add: digitsValue_def)
next
  case (snoc c b)
  have "digitsValue (a @ b @ [c]) = 10 * digitsValue (a @ b) + (c - 0x30)"
    using digitsValue_snoc [of "a @ b" c] by simp
  with snoc show ?case
    by (simp add: digitsValue_snoc algebra_simps)
qed

lemma toStringNat_digits:
  "list_all isDigit (toStringNat n) \<and> digitsValue (toStringNat n) = n \<and> toStringNat n \<noteq> []"
proof (induction n rule: toStringNat.induct)
  case (1 n)
  show ?case
  proof (cases "n < 10")
    case True
    then show ?thesis
      by (simp add: toStringNat.simps [of n] isDigit_def digitsValue_def)
  next
    case False
    with 1 have ih: "list_all isDigit (toStringNat (n div 10))"
      "digitsValue (toStringNat (n div 10)) = n div 10"
      by simp_all
    have "n mod 10 < 10" by simp
    then have d: "isDigit (48 + n mod 10)"
      by (simp add: isDigit_def)
    from False ih d show ?thesis
      by (simp add: toStringNat.simps [of n] digitsValue_snoc)
  qed
qed

lemma digitsValue_zeros: "digitsValue (replicate k 0x30 @ m) = digitsValue m"
proof (induction k)
  case 0
  then show ?case by simp
next
  case (Suc k)
  have "digitsValue (0x30 # ds) = digitsValue ds" for ds
    by (simp add: digitsValue_def)
  with Suc show ?case by simp
qed

text \<open>The notation of \<open>n\<close> cents: digits, a point, two digits, and it reads as \<open>n / 100\<close>.\<close>

lemma centsNotation_reads:
  "\<exists>ip fp. centsNotation n = ip @ [0x2E] @ fp \<and> ip \<noteq> [] \<and> length fp = 2 \<and>
     list_all isDigit (ip @ fp) \<and> digitsValue ip * 100 + digitsValue fp = n"
proof -
  define m where "m = replicate (3 - length (toStringNat n)) 0x30 @ toStringNat n"
  define ip where "ip = take (length m - 2) m"
  define fp where "fp = drop (length m - 2) m"
  have len: "3 \<le> length m"
    by (simp add: m_def)
  have whole: "ip @ fp = m"
    by (simp add: ip_def fp_def)
  have digits: "list_all isDigit m"
    using toStringNat_digits [of n] by (auto simp: m_def isDigit_def list_all_iff)
  have val: "digitsValue m = n"
    using toStringNat_digits [of n] by (simp add: m_def digitsValue_zeros)
  have lfp: "length fp = 2"
    using len by (simp add: fp_def)
  have "ip \<noteq> []"
    using len by (auto simp: ip_def)
  moreover have "digitsValue ip * 100 + digitsValue fp = n"
    using digitsValue_append [of ip fp] whole val lfp by simp
  moreover have "centsNotation n = ip @ [0x2E] @ fp"
    by (simp add: centsNotation_def Let_def ip_def fp_def m_def)
  ultimately show ?thesis
    using lfp digits whole by metis
qed

lemma nearest_cent:
  fixes x :: rat
  assumes "0 \<le> x"
  shows "\<bar>of_nat (nat \<lfloor>x * 100 + 1 / 2\<rfloor>) / 100 - x\<bar> \<le> 1 / 200"
proof -
  have nonneg: "0 \<le> \<lfloor>x * 100 + 1 / 2\<rfloor>"
    using assms by simp
  then have cast: "(of_nat (nat \<lfloor>x * 100 + 1 / 2\<rfloor>) :: rat) = of_int \<lfloor>x * 100 + 1 / 2\<rfloor>"
    by simp
  have lo: "of_int \<lfloor>x * 100 + 1 / 2\<rfloor> \<le> x * 100 + 1 / 2"
    and hi: "x * 100 + 1 / 2 < of_int \<lfloor>x * 100 + 1 / 2\<rfloor> + 1"
    by linarith+
  show ?thesis
    unfolding cast abs_le_iff using lo hi by (intro conjI; linarith)
qed

lemma toFixed2_finite:
  assumes "\<bar>d\<bar> < 10 ^ 21"
  shows "\<exists>ip fp. toFixed2 (Finite d) = (if d < 0 then js ''-'' else []) @ ip @ [0x2E] @ fp \<and>
           ip \<noteq> [] \<and> length fp = 2 \<and> list_all isDigit (ip @ fp) \<and>
           \<bar>of_nat (digitsValue ip * 100 + digitsValue fp) / 100 - \<bar>d\<bar>\<bar> \<le> 1 / 200"
proof -
  obtain ip fp where n: "centsNotation (nat \<lfloor>\<bar>d\<bar> * 100 + 1 / 2\<rfloor>) = ip @ [0x2E] @ fp"
    "ip \<noteq> []" "length fp = 2" "list_all isDigit (ip @ fp)"
    "digitsValue ip * 100 + digitsValue fp = nat \<lfloor>\<bar>d\<bar> * 100 + 1 / 2\<rfloor>"
    using centsNotation_reads by blast
  have "toFixed2 (Finite d) = (if d < 0 then js ''-'' else []) @ ip @ [0x2E] @ fp"
    using assms n(1) by (simp add: toFixed2_def fixedDigits_def)
  moreover have "\<bar>of_nat (digitsValue ip * 100 + digitsValue fp) / 100 - \<bar>d\<bar>\<bar> \<le> 1 / 200"
    unfolding n(5) by (rule nearest_cent) simp
  ultimately show ?thesis
    using n(2-4) by blast
qed

lemma pow2_powi: "pow2 e = 2 powi e"
  by (simp add: pow2_def power_int_def field_simps)

lemma pow2_pos: "0 < pow2 e"
  by (simp add: pow2_def)

lemma pow2_add: "pow2 (a + b) = pow2 a * pow2 b"
  by (simp add: pow2_powi power_int_add)

lemma pow2_mono: "a \<le> b \<Longrightarrow> pow2 a \<le> pow2 b"
  by (simp add: pow2_powi power_int_increasing)

lemma pow2_less_cancel: "pow2 a < pow2 b \<Longrightarrow> a < b"
  using pow2_mono [of b a] by (cases "a < b") auto

lemma roundHalfEven_error: "\<bar>of_int (roundHalfEven r) - r\<bar> \<le> (1 / 2 :: rat)"
proof -
  have "of_int \<lfloor>r\<rfloor> \<le> r" and "r < of_int \<lfloor>r\<rfloor> + 1"
    by linarith+
  then show ?thesis
    by (auto simp: roundHalfEven_def Let_def abs_le_iff)
qed

lemma floorLog2_bounds:
  assumes "0 < a"
  shows "pow2 (floorLog2 a) \<le> a \<and> a < pow2 (floorLog2 a + 1)"
proof (cases "1 \<le> a")
  case True
  define z where "z = \<lfloor>a\<rfloor>"
  have z1: "1 \<le> z" using True by (simp add: z_def le_floor_iff)
  then have zpos: "0 < z" by simp
  from bitlen_bounds [OF zpos]
  have lo: "2 ^ nat (bitlen z - 1) \<le> z" and hi: "z < 2 ^ nat (bitlen z)" by simp_all
  have k1: "1 \<le> bitlen z" using zpos by (simp add: bitlen_alt_def) 
  have fl: "floorLog2 a = bitlen z - 1" using True by (simp add: floorLog2_def z_def)
  have "pow2 (bitlen z - 1) = of_int (2 ^ nat (bitlen z - 1))"
    using k1 by (simp add: pow2_def)
  also have "\<dots> \<le> of_int z" using lo by (simp only: of_int_le_iff)
  also have "\<dots> \<le> a" by (simp add: z_def)
  finally have A: "pow2 (floorLog2 a) \<le> a" by (simp add: fl)
  have "z + 1 \<le> 2 ^ nat (bitlen z)" using hi by simp
  then have "of_int (z + 1) \<le> (of_int (2 ^ nat (bitlen z)) :: rat)" by (simp only: of_int_le_iff)
  moreover have "a < of_int (z + 1)" by (simp add: z_def) linarith
  moreover have "pow2 (bitlen z) = of_int (2 ^ nat (bitlen z))" using k1 by (simp add: pow2_def)
  ultimately have B: "a < pow2 (floorLog2 a + 1)" by (simp add: fl)
  from A B show ?thesis ..
next
  case False
  define y where "y = 1 / a"
  define w where "w = \<lceil>y\<rceil> - 1"
  have y1: "1 < y" using False assms by (simp add: y_def)
  have w1: "1 \<le> w" using y1 by (simp add: w_def less_ceiling_iff) 
  then have wpos: "0 < w" by simp
  from bitlen_bounds [OF wpos]
  have lo: "2 ^ nat (bitlen w - 1) \<le> w" and hi: "w < 2 ^ nat (bitlen w)" by simp_all
  have k1: "1 \<le> bitlen w" using wpos by (simp add: bitlen_alt_def)
  have fl: "floorLog2 a = - bitlen w" using False by (simp add: floorLog2_def w_def y_def)
  have "y \<le> of_int (w + 1)" by (simp add: w_def)
  moreover have "of_int (w + 1) \<le> (of_int (2 ^ nat (bitlen w)) :: rat)"
    using hi by (simp only: of_int_le_iff)
  ultimately have yle: "y \<le> 2 ^ nat (bitlen w)" by simp
  have "(of_int (2 ^ nat (bitlen w - 1)) :: rat) \<le> of_int w" using lo by (simp only: of_int_le_iff)
  then have lo': "(2 :: rat) ^ nat (bitlen w - 1) \<le> of_int w" by simp
  have "of_int w < y" by (simp add: w_def) linarith
  with lo' have ygt: "2 ^ nat (bitlen w - 1) < y" by (rule le_less_trans)
  have A: "pow2 (floorLog2 a) \<le> a"
    using yle assms k1 by (simp add: fl pow2_def y_def field_simps)
  have p: "pow2 (floorLog2 a + 1) = 1 / 2 ^ nat (bitlen w - 1)"
    using k1 by (auto simp: fl pow2_def)
  have "a < 1 / 2 ^ nat (bitlen w - 1)"
    using ygt assms by (simp add: y_def field_simps)
  then have B: "a < pow2 (floorLog2 a + 1)"
    by (simp only: p)
  from A B show ?thesis ..
qed

text \<open>
  The rounding error of a double is at most \<open>2 ^ - 53\<close> of the magnitude, and at most
  \<open>2 ^ - 1075\<close> below the normal range.
\<close>

lemma roundDouble_error:
  assumes r: "roundDouble q = Finite v"
  shows "\<bar>v - q\<bar> \<le> max (\<bar>q\<bar> / 2 ^ 53) (pow2 (- 1075))"
proof (cases "q = 0")
  case True
  with r show ?thesis by (simp add: roundDouble_def pow2_def)
next
  case q0: False
  define a where "a = \<bar>q\<bar>"
  define e where "e = max (floorLog2 a) (- 1022)"
  define ulp where "ulp = pow2 (e - 52)"
  define m where "m = roundHalfEven (a / ulp)"
  have apos: "0 < a" using q0 by (simp add: a_def)
  have ulp_pos: "0 < ulp" by (simp add: ulp_def pow2_pos)
  have v: "v = (if q < 0 then - (of_int m * ulp) else of_int m * ulp)"
    using r q0 by (simp add: roundDouble_def Let_def e_def [symmetric] a_def [symmetric]
        ulp_def m_def split: if_splits)
  have "\<bar>v - q\<bar> = \<bar>of_int m * ulp - a\<bar>"
    by (auto simp: v a_def)
  also have "\<dots> = \<bar>(of_int m - a / ulp) * ulp\<bar>"
    using ulp_pos by (simp add: left_diff_distrib)
  also have "\<dots> = \<bar>of_int m - a / ulp\<bar> * ulp"
    using ulp_pos by (simp add: abs_mult)
  also have "\<dots> \<le> (1 / 2) * ulp"
    using roundHalfEven_error [of "a / ulp"] ulp_pos
    by (intro mult_right_mono) (simp_all add: m_def)
  also have "(1 / 2) * ulp = pow2 (e - 53)"
    using pow2_add [of "e - 52" "- 1"] by (simp add: ulp_def pow2_def [of "- 1"])
  finally have half: "\<bar>v - q\<bar> \<le> pow2 (e - 53)" .
  show ?thesis
  proof (cases "- 1022 \<le> floorLog2 a")
    case True
    then have e: "e = floorLog2 a" by (simp add: e_def)
    from floorLog2_bounds [OF apos] have lo: "pow2 e \<le> a" by (simp add: e)
    have "pow2 (e - 53) = pow2 e / 2 ^ 53"
      using pow2_add [of e "- 53"] by (simp add: pow2_def [of "- 53"])
    also have "\<dots> \<le> a / 2 ^ 53"
      using lo by (simp add: divide_right_mono)
    finally show ?thesis using half by (simp add: a_def)
  next
    case False
    then have e: "e = - 1022" by (simp add: e_def)
    from half show ?thesis by (simp add: e)
  qed
qed

text \<open>
  The double of the literal 1.15 lies \<open>2 / 5 * 2 ^ - 52\<close> below 1.15, so the double
  product with it is within \<open>|x| / 2 ^ 52\<close> of \<open>x * 1.15\<close>, and within \<open>2 ^ - 1074\<close>, the
  least positive double, when that is more.
\<close>

lemma times_1_15_error:
  assumes d: "mul (Finite x) literal_1_15 = Finite d"
  shows "\<bar>d - x * (115 / 100)\<bar> \<le> max (\<bar>x\<bar> / 2 ^ 52) (1 / 2 ^ 1074)"
proof -
  define c :: rat where "c = 5179139571476070 / 4503599627370496"
  define t :: rat where "t = 1 / 2 ^ 1074"
  define u :: rat where "u = \<bar>x\<bar> / 2 ^ 52"
  have r: "roundDouble (x * c) = Finite d"
    using d unfolding double_1_15 c_def by simp
  have c1: "1 \<le> c" by (simp add: c_def)
  have u0: "0 \<le> u" by (simp add: u_def)
  have t0: "0 < t" by (simp add: t_def)
  have half: "pow2 (- 1075) = t / 2"
    using pow2_add [of "- 1074" "- 1"] by (simp add: pow2_def t_def)
  have scaled: "\<bar>x * c\<bar> / 2 ^ 53 = u * (c / 2)"
    using c1 by (simp add: abs_mult u_def)
  have e1: "\<bar>d - x * c\<bar> \<le> max (u * (c / 2)) (t / 2)"
    using roundDouble_error [OF r] unfolding scaled half .
  have "x * c - x * (115 / 100) = x * (c - 115 / 100)"
    by (simp add: right_diff_distrib)
  then have "\<bar>x * c - x * (115 / 100)\<bar> = \<bar>x\<bar> * (115 / 100 - c)"
    by (simp add: abs_mult c_def)
  also have "\<dots> = u * (2 / 5)"
    by (simp add: u_def c_def)
  finally have e2: "\<bar>x * c - x * (115 / 100)\<bar> = u * (2 / 5)" .
  have ch: "c / 2 + 2 / 5 \<le> 1" by (simp add: c_def)
  have "\<bar>d - x * (115 / 100)\<bar> \<le> \<bar>d - x * c\<bar> + \<bar>x * c - x * (115 / 100)\<bar>"
    by simp
  also have "\<dots> \<le> max (u * (c / 2)) (t / 2) + u * (2 / 5)"
    using e1 e2 by simp
  also have "\<dots> \<le> max u t"
  proof (cases "t / 2 \<le> u * (c / 2)")
    case True
    have "u * (c / 2) + u * (2 / 5) = u * (c / 2 + 2 / 5)"
      by (simp add: algebra_simps)
    also have "\<dots> \<le> u * 1"
      using ch u0 by (intro mult_left_mono)
    finally show ?thesis using True by (simp add: max_def)
  next
    case False
    then have m: "max (u * (c / 2)) (t / 2) = t / 2" by (simp add: max_def)
    have "t / 2 + u * (2 / 5) \<le> max u t"
    proof (cases "u \<le> t")
      case True
      then have "t / 2 + u * (2 / 5) \<le> t" using t0 by linarith
      also have "t \<le> max u t" by simp
      finally show ?thesis .
    next
      case F: False
      have "t / 2 + u * (2 / 5) \<le> u" using F t0 by linarith
      also have "u \<le> max u t" by simp
      finally show ?thesis .
    qed
    then show ?thesis unfolding m .
  qed
  finally show ?thesis by (simp add: u_def t_def)
qed

text \<open>The least positive double, read from "5e-324", and its product with 1.15.\<close>

lemma lit_5e_324: "unsignedLiteral (js ''5e-324'') = Some (5 / 10 ^ 324)"
  by (simp add: parse_eval pow10_def)

lemma roundDouble_subnormal:
  assumes pos: "0 < q" and sub: "q < pow2 (- 1022)"
  shows "roundDouble q = Finite (of_int (roundHalfEven (q / pow2 (- 1074))) * pow2 (- 1074))"
proof -
  from floorLog2_bounds [OF pos] have "pow2 (floorLog2 q) \<le> q" by simp
  with sub have "pow2 (floorLog2 q) < pow2 (- 1022)" by simp
  then have "floorLog2 q < - 1022" by (rule pow2_less_cancel)
  then have mx: "max (floorLog2 q) (- 1022) = - 1022" by simp
  define m where "m = roundHalfEven (q / pow2 (- 1074))"
  have u: "0 < pow2 (- 1074)" by (rule pow2_pos)
  have "of_int m \<le> q / pow2 (- 1074) + 1 / 2"
    using roundHalfEven_error [of "q / pow2 (- 1074)"] unfolding m_def by linarith
  then have "of_int m * pow2 (- 1074) \<le> (q / pow2 (- 1074) + 1 / 2) * pow2 (- 1074)"
    using u by (simp only: mult_le_cancel_right_pos)
  also have "\<dots> = q + pow2 (- 1074) / 2"
    using u by (simp add: distrib_right)
  also have "\<dots> < pow2 (- 1022) + pow2 (- 1074) / 2"
    using sub by simp
  also have "\<dots> \<le> pow2 (- 1022) + pow2 (- 1022)"
    using pow2_mono [of "- 1074" "- 1022"] u by simp
  also have "\<dots> = pow2 (- 1021)"
    using pow2_add [of "- 1022" 1] by (simp add: pow2_def [of 1])
  also have "\<dots> \<le> pow2 1024"
    by (rule pow2_mono) simp
  finally have small: "\<not> pow2 1024 \<le> of_int m * pow2 (- 1074)" by simp
  have abs: "\<bar>q\<bar> = q" using pos by simp
  have q0: "q \<noteq> 0" "\<not> q < 0" using pos by simp_all
  show ?thesis
    unfolding roundDouble_def Let_def abs mx
    using q0 small by (simp add: m_def)
qed


lemma roundHalfEven_one: "1 / 2 < r \<Longrightarrow> r < 3 / 2 \<Longrightarrow> roundHalfEven r = 1"
proof -
  assume a: "1 / 2 < r" "r < 3 / 2"
  show ?thesis
  proof (cases "r < 1")
    case True
    with a have "\<lfloor>r\<rfloor> = 0" by (simp add: floor_eq_iff)
    with a show ?thesis by (simp add: roundHalfEven_def Let_def)
  next
    case False
    with a have "\<lfloor>r\<rfloor> = 1" by (simp add: floor_eq_iff)
    with a show ?thesis by (simp add: roundHalfEven_def Let_def)
  qed
qed

lemma subnormal_unit:
  assumes "0 < q" and "pow2 (- 1074) / 2 < q" and "q < 3 * pow2 (- 1074) / 2"
  shows "roundDouble q = Finite (pow2 (- 1074))"
proof -
  have u: "0 < pow2 (- 1074)" by (rule pow2_pos)
  have "q < 2 * pow2 (- 1074)" using assms(3) u by linarith
  also have "\<dots> = pow2 (- 1073)" using pow2_add [of "- 1074" 1] by (simp add: pow2_def [of 1])
  also have "\<dots> \<le> pow2 (- 1022)" by (rule pow2_mono) simp
  finally have sub: "q < pow2 (- 1022)" .
  have "1 / 2 < q / pow2 (- 1074)" "q / pow2 (- 1074) < 3 / 2"
    using assms(2,3) u by (simp_all add: field_simps)
  then have "roundHalfEven (q / pow2 (- 1074)) = 1" by (rule roundHalfEven_one)
  with roundDouble_subnormal [OF assms(1) sub] show ?thesis by simp
qed

lemma parseFloat_5e_324: "parseFloat (js ''5e-324'') = Finite (pow2 (- 1074))"
proof -
  define q :: rat where "q = 5 / 10 ^ 324"
  have lit: "unsignedLiteral (js ''5e-324'') = Some q"
    unfolding q_def by (rule lit_5e_324)
  have rd: "roundDouble q = Finite (pow2 (- 1074))"
    unfolding q_def by (rule subnormal_unit) (simp_all add: pow2_def)
  have "parseFloat (js ''5e-324'') =
          (case unsignedLiteral (js ''5e-324'') of None \<Rightarrow> NaN | Some mv \<Rightarrow> roundDouble mv)"
    by (simp add: parseFloat_def js_def isWhiteSpace_def split: option.splits)
  then show ?thesis
    by (simp only: lit rd option.case)
qed

lemma mul_5e_324: "mul (Finite (pow2 (- 1074))) literal_1_15 = Finite (pow2 (- 1074))"
proof -
  have "roundDouble (pow2 (- 1074) * (5179139571476070 / 4503599627370496)) = Finite (pow2 (- 1074))"
    using pow2_pos [of "- 1074"] by (intro subnormal_unit) simp_all
  then show ?thesis
    by (simp add: double_1_15)
qed

lemma toFixed2_5e_324: "toFixed2 (Finite (pow2 (- 1074))) = js ''0.00''"
proof -
  have "0 < pow2 (- 1074)" by (rule pow2_pos)
  moreover have "pow2 (- 1074) \<le> pow2 (- 8)" by (rule pow2_mono) simp
  then have "pow2 (- 1074) \<le> 1 / 256" by (simp add: pow2_def)
  ultimately have "\<lfloor>pow2 (- 1074) * 100 + 1 / 2\<rfloor> = 0"
    by (simp add: floor_eq_iff)
  then show ?thesis
    using \<open>0 < pow2 (- 1074)\<close> \<open>pow2 (- 1074) \<le> 1 / 256\<close>
    by (simp add: toFixed2_def fixedDigits_def centsNotation_def Let_def toStringNat.simps js_def)
qed

lemma derivedPrice_5e_324: "derivedPrice (js ''5e-324'') = js ''0.00''"
  by (simp only: derivedPrice_def parseFloat_5e_324 mul_5e_324 toFixed2_5e_324)

lemma scrapePrice_derives:
  "scrapePrice pg = Inr (p, base) \<Longrightarrow> p = derivedPrice base"
  by (auto simp: scrapePrice_def priceFromDom_def priceFromElement_def Let_def
      split: list.splits ld_script.splits option.splits)

lemma derivedPrice_NaN: "parseFloat b = NaN \<Longrightarrow> derivedPrice b = js ''NaN''"
  by (simp add: derivedPrice_def toFixed2_def)

lemma derivedPrice_finite:
  assumes "parseFloat b = Finite x" and "mul (Finite x) literal_1_15 = Finite d"
  shows "derivedPrice b = toFixed2 (Finite d)"
  using assms by (simp add: derivedPrice_def)

lemma base_1_3: "trim (replaceFirst (js ''TL'') [] (trim (js ''1.3 TL''))) = js ''1.3''"
  by (simp add: js_def trim_def isWhiteSpace_def)

lemma base_no_number:
  "trim (replaceFirst (js ''TL'') [] (trim (js ''Fiyat yok''))) = js ''Fiyat yok''"
  by (simp add: js_def trim_def isWhiteSpace_def)

lemma tie_price: "scrapePrice tiePricePage = Inr (js ''1.49'', js ''1.3'')"
proof -
  have "priceFromElement (js ''1.3 TL'') = (js ''1.49'', js ''1.3'')"
    by (simp only: priceFromElement_def Let_def base_1_3 derivedPrice_1_3)
  then show ?thesis
    by (simp add: scrapePrice_def priceFromDom_def tiePricePage_def emptyPage_def)
qed

lemma no_number_price: "scrapePrice noNumberPricePage = Inr (js ''NaN'', js ''Fiyat yok'')"
proof -
  have "priceFromElement (js ''Fiyat yok'') = (js ''NaN'', js ''Fiyat yok'')"
    by (simp only: priceFromElement_def Let_def base_no_number derivedPrice_no_number)
  then show ?thesis
    by (simp add: scrapePrice_def priceFromDom_def noNumberPricePage_def emptyPage_def)
qed

text \<open>
  C8, as the code has it. Whatever strategy yields the base price, the derived price is
  \<open>(parseFloat(basePrice) * 1.15).toFixed(2)\<close>, computed on doubles. When the base price
  text has no numeric prefix the derived price is the string "NaN". When \<open>parseFloat\<close>
  reads the finite number \<open>x\<close> and the double product \<open>d\<close> of \<open>x\<close> and the literal 1.15 is
  finite, \<open>d\<close> is within \<open>|x| / 2 ^ 52\<close> of \<open>x * 1.15\<close>, or within \<open>2 ^ - 1074\<close> (the least
  positive double) where that is more; this holds for every \<open>x\<close>, zero and the numbers
  below the normal range included. When moreover \<open>d\<close> is below \<open>10 ^ 21\<close> in magnitude,
  the derived price is a sign, digits, a point and exactly two digits, and the number of
  cents it denotes is within half a cent of \<open>d\<close>: it is the cent value nearest to the
  double product, which is not always the one nearest to the exact product. For the
  structured-data base price 100 the derived price is exactly "115.00".
\<close>

theorem derived_price_nearest_cent_of_double_product:
  "(\<forall>p base. scrapePrice pg = Inr (p, base) \<longrightarrow> p = derivedPrice base) \<and>
   (parseFloat b = NaN \<longrightarrow> derivedPrice b = js ''NaN'') \<and>
   (\<forall>x d. parseFloat b = Finite x \<longrightarrow> mul (Finite x) literal_1_15 = Finite d \<longrightarrow>
      \<bar>d - x * (115 / 100)\<bar> \<le> max (\<bar>x\<bar> / 2 ^ 52) (1 / 2 ^ 1074) \<and>
      (\<bar>d\<bar> < 10 ^ 21 \<longrightarrow>
         (\<exists>ip fp. derivedPrice b = (if d < 0 then js ''-'' else []) @ ip @ [0x2E] @ fp \<and>
            ip \<noteq> [] \<and> length fp = 2 \<and> list_all isDigit (ip @ fp) \<and>
            \<bar>of_nat (digitsValue ip * 100 + digitsValue fp) / 100 - \<bar>d\<bar>\<bar> \<le> 1 / 200))) \<and>
   scrapePrice shirtPage = Inr (js ''115.00'', js ''100'')"
proof (intro conjI allI impI)
  fix p base
  assume "scrapePrice pg = Inr (p, base)"
  then show "p = derivedPrice base"
    by (rule scrapePrice_derives)
next
  assume "parseFloat b = NaN"
  then show "derivedPrice b = js ''NaN''"
    by (rule derivedPrice_NaN)
next
  fix x d
  assume "mul (Finite x) literal_1_15 = Finite d"
  then show "\<bar>d - x * (115 / 100)\<bar> \<le> max (\<bar>x\<bar> / 2 ^ 52) (1 / 2 ^ 1074)"
    by (rule times_1_15_error)
next
  fix x d
  assume pf: "parseFloat b = Finite x" and m: "mul (Finite x) literal_1_15 = Finite d"
    and small: "\<bar>d\<bar> < 10 ^ 21"
  show "\<exists>ip fp. derivedPrice b = (if d < 0 then js ''-'' else []) @ ip @ [0x2E] @ fp \<and>
         ip \<noteq> [] \<and> length fp = 2 \<and> list_all isDigit (ip @ fp) \<and>
         \<bar>of_nat (digitsValue ip * 100 + digitsValue fp) / 100 - \<bar>d\<bar>\<bar> \<le> 1 / 200"
    unfolding derivedPrice_finite [OF pf m] by (rule toFixed2_finite [OF small])
next
  show "scrapePrice shirtPage = Inr (js ''115.00'', js ''100'')"
    by (rule shirt_price)
qed

text \<open>
  At the base price 100, at a text without a number, and at "5e-324", the least positive
  double, whose product with 1.15 is that double again and whose derived price is "0.00".
\<close>

theorem derived_price_nearest_cent_of_double_product_witness:
  "(\<exists>ip fp. derivedPrice (js ''100'') = ip @ [0x2E] @ fp \<and>
      ip \<noteq> [] \<and> length fp = 2 \<and> list_all isDigit (ip @ fp) \<and>
      \<bar>of_nat (digitsValue ip * 100 + digitsValue fp) / 100 -
        8092405580431359 / 70368744177664\<bar> \<le> (1 / 200 :: rat)) \<and>
   \<bar>8092405580431359 / 70368744177664 - 100 * (115 / 100)\<bar>
      \<le> max (\<bar>100\<bar> / 2 ^ 52) (1 / 2 ^ 1074 :: rat) \<and>
   js ''115.00'' = derivedPrice (js ''100'') \<and>
   derivedPrice (js ''Fiyat yok'') = js ''NaN'' \<and>
   \<bar>pow2 (- 1074) - pow2 (- 1074) * (115 / 100)\<bar>
      \<le> max (\<bar>pow2 (- 1074)\<bar> / 2 ^ 52) (1 / 2 ^ 1074) \<and>
   derivedPrice (js ''5e-324'') = js ''0.00''"
proof -
  have pf: "parseFloat (js ''100'') = Finite 100"
    by (rule parseFloat_100)
  have m: "mul (Finite 100) literal_1_15 = Finite (8092405580431359 / 70368744177664)"
    by (simp only: double_1_15 mul_100_1_15)
  have small: "\<bar>8092405580431359 / 70368744177664 :: rat\<bar> < 10 ^ 21"
    by simp
  note at_100 = derived_price_nearest_cent_of_double_product [of shirtPage "js ''100''"]
  note at_text = derived_price_nearest_cent_of_double_product [of shirtPage "js ''Fiyat yok''"]
  note at_tiny = derived_price_nearest_cent_of_double_product [of shirtPage "js ''5e-324''"]
  from at_100
  have "\<forall>x d. parseFloat (js ''100'') = Finite x \<longrightarrow> mul (Finite x) literal_1_15 = Finite d \<longrightarrow>
      \<bar>d - x * (115 / 100)\<bar> \<le> max (\<bar>x\<bar> / 2 ^ 52) (1 / 2 ^ 1074) \<and>
      (\<bar>d\<bar> < 10 ^ 21 \<longrightarrow>
         (\<exists>ip fp. derivedPrice (js ''100'') = (if d < 0 then js ''-'' else []) @ ip @ [0x2E] @ fp \<and>
            ip \<noteq> [] \<and> length fp = 2 \<and> list_all isDigit (ip @ fp) \<and>
            \<bar>of_nat (digitsValue ip * 100 + digitsValue fp) / 100 - \<bar>d\<bar>\<bar> \<le> 1 / 200))"
    by blast
  from this [rule_format, OF pf m]
  have bound: "\<bar>8092405580431359 / 70368744177664 - 100 * (115 / 100)\<bar>
      \<le> max (\<bar>100\<bar> / 2 ^ 52) (1 / 2 ^ 1074 :: rat)"
    and "\<bar>8092405580431359 / 70368744177664 :: rat\<bar> < 10 ^ 21 \<longrightarrow>
      (\<exists>ip fp. derivedPrice (js ''100'') =
          (if (8092405580431359 / 70368744177664 :: rat) < 0 then js ''-'' else []) @ ip @ [0x2E] @ fp \<and>
         ip \<noteq> [] \<and> length fp = 2 \<and> list_all isDigit (ip @ fp) \<and>
         \<bar>of_nat (digitsValue ip * 100 + digitsValue fp) / 100 -
           \<bar>8092405580431359 / 70368744177664\<bar>\<bar> \<le> (1 / 200 :: rat))"
    by blast+
  with small
  have cents: "\<exists>ip fp. derivedPrice (js ''100'') = ip @ [0x2E] @ fp \<and>
      ip \<noteq> [] \<and> length fp = 2 \<and> list_all isDigit (ip @ fp) \<and>
      \<bar>of_nat (digitsValue ip * 100 + digitsValue fp) / 100 -
        8092405580431359 / 70368744177664\<bar> \<le> (1 / 200 :: rat)"
    by simp
  from at_100
  have "scrapePrice shirtPage = Inr (js ''115.00'', js ''100'')"
    and "\<forall>p base. scrapePrice shirtPage = Inr (p, base) \<longrightarrow> p = derivedPrice base"
    by blast+
  then have returned: "js ''115.00'' = derivedPrice (js ''100'')"
    by blast
  from at_text parseFloat_no_number
  have nan: "derivedPrice (js ''Fiyat yok'') = js ''NaN''"
    by blast
  from at_tiny
  have "\<forall>x d. parseFloat (js ''5e-324'') = Finite x \<longrightarrow> mul (Finite x) literal_1_15 = Finite d \<longrightarrow>
      \<bar>d - x * (115 / 100)\<bar> \<le> max (\<bar>x\<bar> / 2 ^ 52) (1 / 2 ^ 1074)"
    by blast
  from this [rule_format, OF parseFloat_5e_324 mul_5e_324]
  have tiny: "\<bar>pow2 (- 1074) - pow2 (- 1074) * (115 / 100)\<bar>
      \<le> max (\<bar>pow2 (- 1074)\<bar> / 2 ^ 52) (1 / 2 ^ 1074)" .
  from cents bound returned nan tiny derivedPrice_5e_324 show ?thesis
    by blast
qed

text \<open>
  C8, as the claim states it, fails. For the base price 1.3 the product with 1.15 is
  exactly 1.495, which rounds to 1.50, and the derived price is "1.49": the double
  product lies just below 1.495. For a base price text without a number the derived
  price is "NaN".
\<close>

theorem derived_price_exact_rounding_counterexample:
  "scrapePrice tiePricePage = Inr (js ''1.49'', js ''1.3'') \<and>
   (13 / 10 :: rat) * (115 / 100) = 1495 / 1000 \<and>
   fixedDigits (1495 / 1000) = js ''1.50'' \<and>
   scrapePrice noNumberPricePage = Inr (js ''NaN'', js ''Fiyat yok'')"
proof -
  have "fixedDigits (1495 / 1000) = js ''1.50''"
    by (simp add: fixed_eval)
  with tie_price no_number_price show ?thesis
    by simp
qed

end
